theory Spec2Isabelle
  imports Complex_Main
begin

section \<open>Numbers and vectors\<close>

text \<open>
  JavaScript numbers are IEEE doubles. They are modelled by the real numbers they
  denote: every comparison and branch of the code is kept, rounding and overflow
  are not modelled. The values that are not real numbers, \<open>NaN\<close> and the two
  infinities, are kept where the code can produce them: \<open>parseFloat\<close> of a stored
  text gives them, so they occur in the best time of the timer.
\<close>

datatype jsnum = NaN | Num real | PosInfinity | NegInfinity

text \<open>The comparison \<open>a < b\<close> of JavaScript: false as soon as one side is NaN.\<close>

fun js_less :: "jsnum \<Rightarrow> jsnum \<Rightarrow> bool" where
  "js_less (Num a) (Num b) = (a < b)"
| "js_less (Num a) PosInfinity = True"
| "js_less NegInfinity (Num b) = True"
| "js_less NegInfinity PosInfinity = True"
| "js_less _ _ = False"


text \<open>\<open>THREE.Vector3\<close> with the methods the physics code calls.\<close>

record vec3 =
  vx :: real
  vy :: real
  vz :: real

definition vec :: "real \<Rightarrow> real \<Rightarrow> real \<Rightarrow> vec3" where
  "vec a b c = \<lparr>vx = a, vy = b, vz = c\<rparr>"

definition dot :: "vec3 \<Rightarrow> vec3 \<Rightarrow> real" where
  "dot a b = vx a * vx b + vy a * vy b + vz a * vz b"

definition add :: "vec3 \<Rightarrow> vec3 \<Rightarrow> vec3" where
  "add a b = vec (vx a + vx b) (vy a + vy b) (vz a + vz b)"

definition sub :: "vec3 \<Rightarrow> vec3 \<Rightarrow> vec3" where
  "sub a b = vec (vx a - vx b) (vy a - vy b) (vz a - vz b)"

definition multiplyScalar :: "vec3 \<Rightarrow> real \<Rightarrow> vec3" where
  "multiplyScalar a k = vec (vx a * k) (vy a * k) (vz a * k)"

text \<open>\<open>THREE.Quaternion\<close> and \<open>THREE.Euler\<close> (order XYZ, the default).\<close>

record quat =
  qx :: real
  qy :: real
  qz :: real
  qw :: real

record euler =
  ex :: real
  ey :: real
  ez :: real

definition identityQuat :: quat where
  "identityQuat = \<lparr>qx = 0, qy = 0, qz = 0, qw = 1\<rparr>"

text \<open>
  \<open>Quaternion.setFromEuler\<close> and \<open>Vector3.applyQuaternion\<close> are three.js library
  code, not part of the repository; they are written out here as the library
  computes them (the quaternion of the rotation X then Y then Z, and the
  conjugation \<open>q v q*\<close>).
\<close>

definition setFromEuler :: "euler \<Rightarrow> quat" where
  "setFromEuler e =
     (let c1 = cos (ex e / 2); c2 = cos (ey e / 2); c3 = cos (ez e / 2);
          s1 = sin (ex e / 2); s2 = sin (ey e / 2); s3 = sin (ez e / 2)
      in \<lparr>qx = s1 * c2 * c3 + c1 * s2 * s3,
          qy = c1 * s2 * c3 - s1 * c2 * s3,
          qz = c1 * c2 * s3 + s1 * s2 * c3,
          qw = c1 * c2 * c3 - s1 * s2 * s3\<rparr>)"

definition applyQuaternion :: "vec3 \<Rightarrow> quat \<Rightarrow> vec3" where
  "applyQuaternion v q =
     (let ix = qw q * vx v + qy q * vz v - qz q * vy v;
          iy = qw q * vy v + qz q * vx v - qx q * vz v;
          iz = qw q * vz v + qx q * vy v - qy q * vx v;
          iw = - qx q * vx v - qy q * vy v - qz q * vz v
      in vec (ix * qw q + iw * (- qx q) + iy * (- qz q) - iz * (- qy q))
             (iy * qw q + iw * (- qy q) + iz * (- qx q) - ix * (- qz q))
             (iz * qw q + iw * (- qz q) + ix * (- qy q) - iy * (- qx q)))"

definition unitQuat :: "quat \<Rightarrow> bool" where
  "unitQuat q = (qx q * qx q + qy q * qy q + qz q * qz q + qw q * qw q = 1)"

text \<open>The vehicle's local axes in world space, as every method computes them.\<close>

definition forwardAxis :: "quat \<Rightarrow> vec3" where
  "forwardAxis q = applyQuaternion (vec 0 0 (-1)) q"

definition rightAxis :: "quat \<Rightarrow> vec3" where
  "rightAxis q = applyQuaternion (vec 1 0 0) q"

record box3 =
  boxMin :: vec3
  boxMax :: vec3

definition setFromCenterAndSize :: "vec3 \<Rightarrow> vec3 \<Rightarrow> box3" where
  "setFromCenterAndSize c sz =
     (let h = multiplyScalar sz 0.5 in \<lparr>boxMin = sub c h, boxMax = add c h\<rparr>)"

section \<open>VehiclePhysics (src/js/physics/VehiclePhysics.js)\<close>

record config =
  maxSpeed :: real
  acceleration :: real
  brakeForce :: real
  reverseMaxSpeed :: real
  maxSteerAngle :: real
  steerSpeed :: real
  steerSpeedFactor :: real
  driftFriction :: real
  normalFriction :: real
  driftSteerMultiplier :: real
  driftSpeedBoost :: real
  gripFront :: real
  gripRear :: real
  suspensionHeight :: real
  suspensionStiffness :: real
  suspensionDamping :: real
  gravity :: real
  airControl :: real

text \<open>
  The state of a \<open>VehiclePhysics\<close> object. The three versions of the class in the
  repository have the same fields and differ in the \<open>config\<close> object, which is the
  type parameter.
\<close>

record 'c vehiclePhysics =
  position :: vec3
  rotation :: euler
  quaternion :: quat
  velocity :: vec3
  angularVelocity :: real
  isGrounded :: bool
  groundNormal :: vec3
  groundHeight :: real
  config :: 'c
  speed :: real
  steerAngle :: real
  isDrifting :: bool
  driftFactor :: real
  wheelOffsets :: "vec3 list"
  boundingBox :: box3
  size :: vec3

text \<open>The configuration the constructor of VehiclePhysics.js installs.\<close>

definition defaultConfig :: config where
  "defaultConfig =
     \<lparr>maxSpeed = 80, acceleration = 25, brakeForce = 40, reverseMaxSpeed = 20,
      maxSteerAngle = 0.8, steerSpeed = 3, steerSpeedFactor = 0.7,
      driftFriction = 0.92, normalFriction = 0.98, driftSteerMultiplier = 1.5,
      driftSpeedBoost = 1.1, gripFront = 0.95, gripRear = 0.85,
      suspensionHeight = 0.5, suspensionStiffness = 15, suspensionDamping = 3,
      gravity = -30, airControl = 0.3\<rparr>"

definition newVehiclePhysics :: "config vehiclePhysics" where
  "newVehiclePhysics =
     \<lparr>position = vec 0 0 0, rotation = \<lparr>ex = 0, ey = 0, ez = 0\<rparr>,
      quaternion = identityQuat, velocity = vec 0 0 0, angularVelocity = 0,
      isGrounded = True, groundNormal = vec 0 1 0, groundHeight = 0,
      config = defaultConfig, speed = 0, steerAngle = 0, isDrifting = False,
      driftFactor = 0,
      wheelOffsets = [vec (-0.7) 0 1.2, vec 0.7 0 1.2, vec (-0.7) 0 (-1.2), vec 0.7 0 (-1.2)],
      boundingBox = \<lparr>boxMin = vec 0 0 0, boxMax = vec 0 0 0\<rparr>,
      size = vec 1.5 1 3\<rparr>"

record input =
  throttle :: real
  brake :: real
  steer :: real
  drift :: bool

text \<open>
  The result of \<open>trackCollision.raycast\<close>, and the collision system as the physics
  sees it: its \<open>raycast(origin, direction, maxDistance)\<close> method. The ray caster
  itself is three.js; \<open>None\<close> is the \<open>null\<close> of the source.
\<close>

record rayHit =
  hitPoint :: vec3
  hitNormal :: vec3
  hitDistance :: real

type_synonym trackCollision = "vec3 \<Rightarrow> vec3 \<Rightarrow> real \<Rightarrow> rayHit option"

definition reset :: "vec3 \<Rightarrow> real \<Rightarrow> 'c vehiclePhysics \<Rightarrow> 'c vehiclePhysics" where
  "reset pos rot s =
     (let r = \<lparr>ex = 0, ey = rot, ez = 0\<rparr>
      in s\<lparr>position := vec (vx pos) (vy pos + 0.5) (vz pos),
           rotation := r,
           quaternion := setFromEuler r,
           velocity := vec 0 0 0,
           angularVelocity := 0,
           speed := 0,
           steerAngle := 0,
           isDrifting := False,
           driftFactor := 0,
           isGrounded := True\<rparr>)"

definition updateGroundState ::
  "trackCollision option \<Rightarrow> config vehiclePhysics \<Rightarrow> config vehiclePhysics" where
  "updateGroundState trackCollision s =
     (let rayStart = vec (vx (position s)) (vy (position s) + 1) (vz (position s));
          hit = (case trackCollision of None \<Rightarrow> None
                 | Some raycast \<Rightarrow> raycast rayStart (vec 0 (-1) 0) 3)
      in case hit of
           Some h \<Rightarrow>
             (let targetY = vy (hitPoint h) + suspensionHeight (config s);
                  diff = targetY - vy (position s);
                  y1 = vy (velocity s) + diff * suspensionStiffness (config s);
                  y2 = y1 * (1 - suspensionDamping (config s) * 0.016)
              in s\<lparr>isGrounded := True,
                   groundHeight := vy (hitPoint h),
                   groundNormal := hitNormal h,
                   velocity := (velocity s)\<lparr>vy := y2\<rparr>\<rparr>)
         | None \<Rightarrow>
             (if vy (position s) \<le> suspensionHeight (config s)
              then s\<lparr>isGrounded := True,
                     groundHeight := 0,
                     groundNormal := vec 0 1 0,
                     velocity := (if vy (velocity s) < 0 then (velocity s)\<lparr>vy := 0\<rparr>
                                  else velocity s),
                     position := (position s)\<lparr>vy := suspensionHeight (config s)\<rparr>\<rparr>
              else s\<lparr>isGrounded := False\<rparr>))"

text \<open>
  \<open>alignToGround\<close> asks three.js for the Euler angles of the rotation that takes the
  world up axis to the ground normal (\<open>setFromUnitVectors\<close>, then
  \<open>Euler.setFromQuaternion\<close>). That library computation is the parameter
  \<open>groundEuler\<close>; \<open>rate\<close> is the blend rate written in the method (5 here).
\<close>

definition alignToGround ::
  "(vec3 \<Rightarrow> euler) \<Rightarrow> real \<Rightarrow> real \<Rightarrow> 'c vehiclePhysics \<Rightarrow> 'c vehiclePhysics" where
  "alignToGround groundEuler rate dt s =
     (let e = groundEuler (groundNormal s);
          r = rotation s;
          r1 = r\<lparr>ex := ex r + (ex e - ex r) * rate * dt\<rparr>;
          r2 = r1\<lparr>ez := ez r1 + (ez e - ez r1) * rate * dt\<rparr>
      in s\<lparr>rotation := r2, quaternion := setFromEuler r2\<rparr>)"

text \<open>
  The scalar part of \<open>updateGroundedPhysics\<close>: what the local variable
  \<open>forwardSpeed\<close> goes through between its first read and the steering code
  (acceleration, braking or reversing, natural deceleration).
\<close>

definition throttleStep :: "config \<Rightarrow> real \<Rightarrow> real \<Rightarrow> real \<Rightarrow> real" where
  "throttleStep cfg thr dt fs =
     (if thr > 0 \<and> fs < maxSpeed cfg then fs + acceleration cfg * thr * dt else fs)"

definition brakeStep :: "config \<Rightarrow> real \<Rightarrow> real \<Rightarrow> real \<Rightarrow> real" where
  "brakeStep cfg brk dt fs =
     (if brk > 0 then
        (if fs > 0 then max 0 (fs - brakeForce cfg * brk * dt)
         else if fs > - reverseMaxSpeed cfg then fs - acceleration cfg * brk * 0.5 * dt
         else fs)
      else fs)"

definition naturalDeceleration :: "real \<Rightarrow> real \<Rightarrow> real \<Rightarrow> real" where
  "naturalDeceleration thr brk fs = (if thr = 0 \<and> brk = 0 then fs * 0.995 else fs)"

definition updateGroundedPhysics ::
  "(vec3 \<Rightarrow> euler) \<Rightarrow> real \<Rightarrow> real \<Rightarrow> real \<Rightarrow> bool \<Rightarrow> real \<Rightarrow> config vehiclePhysics
     \<Rightarrow> config vehiclePhysics" where
  "updateGroundedPhysics groundEuler thr brk str drf dt s =
     (let cfg = config s;
          forward = forwardAxis (quaternion s);
          right = rightAxis (quaternion s);
          forwardSpeed0 = dot (velocity s) forward;
          lateralSpeed0 = dot (velocity s) right;
          forwardSpeed =
            naturalDeceleration thr brk (brakeStep cfg brk dt (throttleStep cfg thr dt forwardSpeed0));
          speedFactor = 1 - min (\<bar>forwardSpeed\<bar> / maxSpeed cfg) 1 * steerSpeedFactor cfg;
          targetSteer = str * maxSteerAngle cfg * speedFactor;
          steerAngle1 = steerAngle s + (targetSteer - steerAngle s) * steerSpeed cfg * dt;
          driftFactor1 = (if drf \<and> \<bar>forwardSpeed\<bar> > 10 then min (driftFactor s + dt * 3) 1
                          else max (driftFactor s - dt * 5) 0);
          isDrifting1 = (if drf \<and> \<bar>forwardSpeed\<bar> > 10 then True
                         else if driftFactor1 < 0.1 then False else isDrifting s);
          turnRate0 = steerAngle1 * (forwardSpeed / 20);
          turnRate = (if isDrifting1 then turnRate0 * driftSteerMultiplier cfg else turnRate0);
          lateralSpeed =
            (if isDrifting1 then lateralSpeed0 * driftFriction cfg
             else lateralSpeed0 * normalFriction cfg
                    * (1 - min (\<bar>forwardSpeed\<bar> / maxSpeed cfg) 0.5));
          rotation1 = (rotation s)\<lparr>ey := ey (rotation s) - turnRate * dt\<rparr>;
          quaternion1 = setFromEuler rotation1;
          forward1 = forwardAxis quaternion1;
          right1 = rightAxis quaternion1;
          velocity1 = add (multiplyScalar forward1 forwardSpeed) (multiplyScalar right1 lateralSpeed)
      in alignToGround groundEuler 5 dt
           (s\<lparr>steerAngle := steerAngle1,
              driftFactor := driftFactor1,
              isDrifting := isDrifting1,
              rotation := rotation1,
              quaternion := quaternion1,
              velocity := velocity1\<rparr>))"

definition updateAirPhysics ::
  "real \<Rightarrow> real \<Rightarrow> config vehiclePhysics \<Rightarrow> config vehiclePhysics" where
  "updateAirPhysics str dt s =
     (let cfg = config s;
          velocity1 = (velocity s)\<lparr>vy := vy (velocity s) + gravity cfg * dt\<rparr>;
          rotation1 = (rotation s)\<lparr>ey := ey (rotation s) - str * airControl cfg * dt\<rparr>
      in s\<lparr>velocity := velocity1, rotation := rotation1, quaternion := setFromEuler rotation1\<rparr>)"

definition updateBoundingBox :: "'c vehiclePhysics \<Rightarrow> 'c vehiclePhysics" where
  "updateBoundingBox s = s\<lparr>boundingBox := setFromCenterAndSize (position s) (size s)\<rparr>"

definition update ::
  "(vec3 \<Rightarrow> euler) \<Rightarrow> input \<Rightarrow> real \<Rightarrow> trackCollision option \<Rightarrow> config vehiclePhysics
     \<Rightarrow> config vehiclePhysics" where
  "update groundEuler inp deltaTime trackCollision s =
     (let s1 = updateGroundState trackCollision s;
          s2 = (if isGrounded s1
                then updateGroundedPhysics groundEuler (throttle inp) (brake inp) (steer inp)
                       (drift inp) deltaTime s1
                else updateAirPhysics (steer inp) deltaTime s1);
          s3 = s2\<lparr>position := add (position s2) (multiplyScalar (velocity s2) deltaTime)\<rparr>;
          s4 = updateBoundingBox s3;
          forwardDir = forwardAxis (quaternion s4)
      in s4\<lparr>speed := dot (velocity s4) forwardDir\<rparr>)"

definition getSpeedKmh :: "'c vehiclePhysics \<Rightarrow> real" where
  "getSpeedKmh s = \<bar>speed s\<bar> * 3.6"

definition applyCollision :: "vec3 \<Rightarrow> real \<Rightarrow> 'c vehiclePhysics \<Rightarrow> 'c vehiclePhysics" where
  "applyCollision normal penetration s =
     (let s1 = s\<lparr>position := add (position s) (multiplyScalar normal penetration)\<rparr>;
          d = dot (velocity s1) normal
      in if d < 0
         then s1\<lparr>velocity :=
                   multiplyScalar (sub (velocity s1) (multiplyScalar normal (d * 1.5))) 0.7\<rparr>
         else s1)"

definition applyBoost :: "real \<Rightarrow> config vehiclePhysics \<Rightarrow> config vehiclePhysics" where
  "applyBoost multiplier s =
     (let forward = forwardAxis (quaternion s);
          boostSpeed = min (speed s * multiplier) (maxSpeed (config s) * 1.2)
      in s\<lparr>velocity := multiplyScalar forward boostSpeed\<rparr>)"

section \<open>VehiclePhysics, tire-model version (src/unnamed/part_005)\<close>

text \<open>
  The second version of the class has another \<open>config\<close> object and another
  \<open>updateGroundedPhysics\<close>; \<open>applyCollision\<close> and \<open>applyBoost\<close> are the same text.
\<close>

record config_p5 =
  maxSpeed_p5 :: real
  acceleration_p5 :: real
  brakeForce_p5 :: real
  reverseMaxSpeed_p5 :: real
  maxSteerAngle_p5 :: real
  steerSpeed_p5 :: real
  steerSpeedFactor_p5 :: real
  normalFriction_p5 :: real
  tireStiffness_p5 :: real
  slipLimit_p5 :: real
  downforce_p5 :: real
  suspensionHeight_p5 :: real
  suspensionStiffness_p5 :: real
  suspensionDamping_p5 :: real
  gravity_p5 :: real
  airControl_p5 :: real

definition defaultConfig_p5 :: config_p5 where
  "defaultConfig_p5 =
     \<lparr>maxSpeed_p5 = 90, acceleration_p5 = 30, brakeForce_p5 = 40, reverseMaxSpeed_p5 = 20,
      maxSteerAngle_p5 = 0.6, steerSpeed_p5 = 4, steerSpeedFactor_p5 = 0.5,
      normalFriction_p5 = 1.1, tireStiffness_p5 = 15.0, slipLimit_p5 = 0.3,
      downforce_p5 = 1.5,
      suspensionHeight_p5 = 0.4, suspensionStiffness_p5 = 40, suspensionDamping_p5 = 8,
      gravity_p5 = -40, airControl_p5 = 0.1\<rparr>"

definition updateGroundedPhysics_p5 ::
  "(vec3 \<Rightarrow> euler) \<Rightarrow> real \<Rightarrow> real \<Rightarrow> real \<Rightarrow> bool \<Rightarrow> real \<Rightarrow> config_p5 vehiclePhysics
     \<Rightarrow> config_p5 vehiclePhysics" where
  "updateGroundedPhysics_p5 groundEuler thr brk str drf dt s =
     (let cfg = config s;
          forward = forwardAxis (quaternion s);
          forwardSpeed0 = dot (velocity s) forward;
          forwardSpeed1 =
            (if thr > 0 \<and> forwardSpeed0 < maxSpeed_p5 cfg
             then forwardSpeed0 + acceleration_p5 cfg * thr * dt else forwardSpeed0);
          forwardSpeed2 =
            (if brk > 0 then
               (if forwardSpeed1 > 0 then max 0 (forwardSpeed1 - brakeForce_p5 cfg * brk * dt)
                else if forwardSpeed1 > - reverseMaxSpeed_p5 cfg
                     then forwardSpeed1 - acceleration_p5 cfg * brk * 0.5 * dt
                else forwardSpeed1)
             else forwardSpeed1);
          forwardSpeed =
            (if thr = 0 \<and> brk = 0 then forwardSpeed2 - forwardSpeed2 * 0.5 * dt
             else forwardSpeed2);
          speedFactor = 1 - min (\<bar>forwardSpeed\<bar> / maxSpeed_p5 cfg) 1 * steerSpeedFactor_p5 cfg;
          targetSteer = str * maxSteerAngle_p5 cfg * speedFactor;
          steerAngle1 = steerAngle s + (targetSteer - steerAngle s) * steerSpeed_p5 cfg * dt;
          wheelBase = 2.5;
          ackermannYawRate = (forwardSpeed / wheelBase) * tan steerAngle1;
          rotation1 = (rotation s)\<lparr>ey := ey (rotation s) + ackermannYawRate * dt\<rparr>;
          quaternion1 = setFromEuler rotation1;
          newForward = forwardAxis quaternion1;
          newRight = rightAxis quaternion1;
          vForward = dot (velocity s) newForward;
          vLateral = dot (velocity s) newRight;
          downforce = \<bar>forwardSpeed\<bar> * 1.5;
          normalForce = 30 + downforce;
          maxGrip = normalForce * normalFriction_p5 cfg;
          frictionForce = - vLateral * 10;
          appliedFriction0 = max (- maxGrip) (min maxGrip frictionForce);
          appliedFriction =
            (if drf then appliedFriction0 * 0.1
             else if \<bar>frictionForce\<bar> > maxGrip then appliedFriction0 * 0.8
             else appliedFriction0);
          isDrifting1 = (if drf then True else if \<bar>frictionForce\<bar> > maxGrip then True else False);
          forwardSpeedDrag = forwardSpeed - 0.1 * dt * (forwardSpeed * forwardSpeed * 0.001);
          velocity1 = add (multiplyScalar newForward vForward)
                          (multiplyScalar newRight (vLateral + appliedFriction * dt));
          downDir = applyQuaternion (vec 0 (-1) 0) quaternion1;
          aeroForce = multiplyScalar downDir (\<bar>forwardSpeedDrag\<bar> * forwardSpeedDrag * 0.02 * dt);
          velocity2 = add velocity1 aeroForce;
          velocity3 = velocity2\<lparr>vy := vy velocity2 + gravity_p5 cfg * dt\<rparr>
      in alignToGround groundEuler 2 dt
           (s\<lparr>steerAngle := steerAngle1,
              isDrifting := isDrifting1,
              rotation := rotation1,
              quaternion := quaternion1,
              velocity := velocity3\<rparr>))"

section \<open>VehiclePhysics, stick-to-track version (src/unnamed/part_006)\<close>

text \<open>
  The third version of the class has the fields of the first in its \<open>config\<close>, with
  other values, and a grounded step that differs in the drift condition and adds
  gravity along the ground normal.
\<close>

definition defaultConfig_p6 :: config where
  "defaultConfig_p6 =
     \<lparr>maxSpeed = 90, acceleration = 30, brakeForce = 40, reverseMaxSpeed = 20,
      maxSteerAngle = 0.8, steerSpeed = 5, steerSpeedFactor = 0.7,
      driftFriction = 0.96, normalFriction = 0.98, driftSteerMultiplier = 1.2,
      driftSpeedBoost = 1.1, gripFront = 0.98, gripRear = 0.90,
      suspensionHeight = 0.4, suspensionStiffness = 30, suspensionDamping = 6,
      gravity = -30, airControl = 0.3\<rparr>"

definition updateGroundedPhysics_p6 ::
  "(vec3 \<Rightarrow> euler) \<Rightarrow> real \<Rightarrow> real \<Rightarrow> real \<Rightarrow> bool \<Rightarrow> real \<Rightarrow> config vehiclePhysics
     \<Rightarrow> config vehiclePhysics" where
  "updateGroundedPhysics_p6 groundEuler thr brk str drf dt s =
     (let cfg = config s;
          forward = forwardAxis (quaternion s);
          right = rightAxis (quaternion s);
          forwardSpeed0 = dot (velocity s) forward;
          lateralSpeed0 = dot (velocity s) right;
          forwardSpeed =
            naturalDeceleration thr brk (brakeStep cfg brk dt (throttleStep cfg thr dt forwardSpeed0));
          speedFactor = 1 - min (\<bar>forwardSpeed\<bar> / maxSpeed cfg) 1 * steerSpeedFactor cfg;
          targetSteer = str * maxSteerAngle cfg * speedFactor;
          steerAngle1 = steerAngle s + (targetSteer - steerAngle s) * steerSpeed cfg * dt;
          isTurning = (\<bar>str\<bar> > 0.5);
          isBraking = (brk > 0);
          isFastEnough = (\<bar>forwardSpeed\<bar> > 10);
          shouldDrift = (drf \<or> (isTurning \<and> isBraking \<and> isFastEnough));
          driftFactor1 = (if shouldDrift then min (driftFactor s + dt * 3) 1
                          else max (driftFactor s - dt * 5) 0);
          isDrifting1 = (if shouldDrift then True
                         else if driftFactor1 < 0.1 then False else isDrifting s);
          turnRate0 = steerAngle1 * (forwardSpeed / 20);
          turnRate = (if isDrifting1 then turnRate0 * driftSteerMultiplier cfg else turnRate0);
          lateralSpeed =
            (if isDrifting1 then lateralSpeed0 * driftFriction cfg
             else lateralSpeed0 * normalFriction cfg
                    * (1 - min (\<bar>forwardSpeed\<bar> / maxSpeed cfg) 0.5));
          rotation1 = (rotation s)\<lparr>ey := ey (rotation s) - turnRate * dt\<rparr>;
          quaternion1 = setFromEuler rotation1;
          forward1 = forwardAxis quaternion1;
          right1 = rightAxis quaternion1;
          velocity1 = add (multiplyScalar forward1 forwardSpeed) (multiplyScalar right1 lateralSpeed);
          gravityVector = multiplyScalar (groundNormal s) (gravity cfg * dt);
          velocity2 = add velocity1 gravityVector
      in alignToGround groundEuler 5 dt
           (s\<lparr>steerAngle := steerAngle1,
              driftFactor := driftFactor1,
              isDrifting := isDrifting1,
              rotation := rotation1,
              quaternion := quaternion1,
              velocity := velocity2\<rparr>))"

section \<open>GhostCar (src/js/game/GhostCar.js)\<close>

record ghostFrame =
  frameTime :: real
  framePosition :: vec3
  frameQuaternion :: quat

record ghostMesh =
  meshVisible :: bool
  meshPosition :: vec3
  meshQuaternion :: quat

text \<open>
  The arrays of frames are objects. \<open>GhostCar.recordedData\<close> and
  \<open>Game.currentGhostData\<close> hold references to them: \<open>startPlayback(data)\<close> makes
  \<open>recordedData\<close> refer to the array it is given, and \<open>recordFrame\<close> pushes onto
  whatever array \<open>recordedData\<close> refers to. The arrays are kept in a store, and a
  reference is the number of the array in it.
\<close>

record arrayStore =
  arrayOf :: "nat \<Rightarrow> ghostFrame list"
  nextArray :: nat

definition emptyStore :: arrayStore where
  "emptyStore = \<lparr>arrayOf = (\<lambda>a. []), nextArray = 0\<rparr>"

text \<open>A new array with the given frames (\<open>[]\<close> in the source is \<open>newArray []\<close>).\<close>

definition newArray :: "ghostFrame list \<Rightarrow> arrayStore \<Rightarrow> nat \<times> arrayStore" where
  "newArray fs h =
     (nextArray h, h\<lparr>arrayOf := (arrayOf h)(nextArray h := fs), nextArray := nextArray h + 1\<rparr>)"

definition push :: "nat \<Rightarrow> ghostFrame \<Rightarrow> arrayStore \<Rightarrow> arrayStore" where
  "push a f h = h\<lparr>arrayOf := (arrayOf h)(a := arrayOf h a @ [f])\<rparr>"

record ghostCar =
  isRecording :: bool
  isPlaying :: bool
  recordedData :: nat
  playbackIndex :: nat
  recordInterval :: real
  lastRecordTime :: real
  ghostMesh :: ghostMesh
  visible :: bool

definition newGhostCar :: "arrayStore \<Rightarrow> ghostCar \<times> arrayStore" where
  "newGhostCar h =
     (let (a, h1) = newArray [] h
      in (\<lparr>isRecording = False, isPlaying = False, recordedData = a, playbackIndex = 0,
           recordInterval = 50, lastRecordTime = 0,
           ghostMesh = \<lparr>meshVisible = False, meshPosition = vec 0 0 0,
                        meshQuaternion = identityQuat\<rparr>,
           visible = True\<rparr>, h1))"

definition startRecording :: "ghostCar \<Rightarrow> arrayStore \<Rightarrow> ghostCar \<times> arrayStore" where
  "startRecording gc h =
     (let (a, h1) = newArray [] h
      in (gc\<lparr>recordedData := a, isRecording := True, lastRecordTime := 0\<rparr>, h1))"

text \<open>\<open>stopRecording\<close> returns the array itself, not a copy.\<close>

definition stopRecording :: "ghostCar \<Rightarrow> nat \<times> ghostCar" where
  "stopRecording gc = (recordedData gc, gc\<lparr>isRecording := False\<rparr>)"

definition recordFrame ::
  "vec3 \<Rightarrow> quat \<Rightarrow> real \<Rightarrow> ghostCar \<Rightarrow> arrayStore \<Rightarrow> ghostCar \<times> arrayStore" where
  "recordFrame pos q t gc h =
     (if \<not> isRecording gc then (gc, h)
      else if t - lastRecordTime gc < recordInterval gc then (gc, h)
      else (gc\<lparr>lastRecordTime := t\<rparr>,
            push (recordedData gc) \<lparr>frameTime = t, framePosition = pos, frameQuaternion = q\<rparr> h))"

definition stopPlayback :: "ghostCar \<Rightarrow> ghostCar" where
  "stopPlayback gc = gc\<lparr>isPlaying := False, ghostMesh := (ghostMesh gc)\<lparr>meshVisible := False\<rparr>\<rparr>"

text \<open>
  \<open>startPlayback(data)\<close>: \<open>data\<close> is an array or \<open>null\<close>. No frame is copied:
  afterwards \<open>recordedData\<close> is the array that was passed.
\<close>

definition startPlayback :: "nat option \<Rightarrow> ghostCar \<Rightarrow> arrayStore \<Rightarrow> ghostCar" where
  "startPlayback data gc h =
     (let gc1 = (case data of None \<Rightarrow> gc | Some d \<Rightarrow> gc\<lparr>recordedData := d\<rparr>)
      in if length (arrayOf h (recordedData gc1)) = 0 then gc1\<lparr>isPlaying := False\<rparr>
         else gc1\<lparr>isPlaying := True, playbackIndex := 0,
                  ghostMesh := (ghostMesh gc1)\<lparr>meshVisible := visible gc1\<rparr>\<rparr>)"

text \<open>
  The \<open>while\<close> loop of \<open>GhostCar.update\<close> that moves \<open>playbackIndex\<close> forward. The
  first conjunct keeps the read \<open>data[i + 1]\<close> inside the array.
\<close>

function findFrame :: "ghostFrame list \<Rightarrow> real \<Rightarrow> nat \<Rightarrow> nat" where
  "findFrame frames currentTime i =
     (if i < length frames - 1 \<and> frameTime (frames ! (i + 1)) \<le> currentTime
      then findFrame frames currentTime (i + 1) else i)"
  by pat_completeness auto
termination
  by (relation "measure (\<lambda>(frames, currentTime, i). length frames - i)") auto

declare findFrame.simps [simp del]

text \<open>
  \<open>GhostCar.update\<close>. \<open>Quaternion.slerp\<close> is three.js library code and is the
  parameter \<open>slerp\<close>. When the two frames have the same timestamp the source divides
  by zero: the loop has stopped with \<open>frame2.time > currentTime\<close>, so the quotient is
  minus infinity and the clamp gives 0; the division of HOL gives 0 there and the
  clamp gives 0 as well.
\<close>

definition update_ghost ::
  "(quat \<Rightarrow> quat \<Rightarrow> real \<Rightarrow> quat) \<Rightarrow> real \<Rightarrow> ghostCar \<Rightarrow> arrayStore \<Rightarrow> ghostCar" where
  "update_ghost slerp currentTime gc h =
     (let frames = arrayOf h (recordedData gc)
      in if \<not> isPlaying gc \<or> length frames = 0 then gc
         else
           (let i = findFrame frames currentTime (playbackIndex gc);
                gc1 = gc\<lparr>playbackIndex := i\<rparr>
            in if i \<ge> length frames - 1 then stopPlayback gc1
               else
                 (let frame1 = frames ! i;
                      frame2 = frames ! (i + 1);
                      t = (currentTime - frameTime frame1) / (frameTime frame2 - frameTime frame1);
                      clampedT = max 0 (min 1 t);
                      p1 = framePosition frame1;
                      p2 = framePosition frame2;
                      pos = vec (vx p1 + (vx p2 - vx p1) * clampedT)
                                (vy p1 + (vy p2 - vy p1) * clampedT)
                                (vz p1 + (vz p2 - vz p1) * clampedT);
                      q = slerp (frameQuaternion frame1) (frameQuaternion frame2) clampedT
                  in gc1\<lparr>ghostMesh := (ghostMesh gc1)\<lparr>meshPosition := pos,
                                                        meshQuaternion := q\<rparr>\<rparr>)))"

section \<open>Browser storage\<close>

text \<open>
  \<open>localStorage\<close> maps keys to texts. The texts this program writes are the text of
  a number (\<open>time.toString()\<close>) and the JSON text of a ghost recording
  (\<open>JSON.stringify\<close>); any other text, written by something else, is \<open>OtherText\<close>
  with its characters (those with codes below 256).
\<close>

datatype stored = NumberText jsnum | GhostJson "ghostFrame list" | OtherText string

type_synonym localStorage = "string \<rightharpoonup> stored"

text \<open>
  \<open>parseFloat\<close> is a built-in of the language. It skips leading white space and
  reads the longest prefix that is a decimal literal: an optional sign, then
  \<open>Infinity\<close> or digits with an optional fraction and an optional exponent. The
  rest of the text is ignored; when there is no such prefix the result is NaN.
\<close>

definition isWhiteSpace :: "char \<Rightarrow> bool" where
  "isWhiteSpace c =
     (c \<in> set [CHR 0x09, CHR 0x0A, CHR 0x0B, CHR 0x0C, CHR 0x0D, CHR '' '', CHR 0xA0])"

definition isDigit :: "char \<Rightarrow> bool" where
  "isDigit c = (c \<in> set ''0123456789'')"

definition digitValue :: "char \<Rightarrow> nat" where
  "digitValue c = of_char c - 48"

definition digitsValue :: "string \<Rightarrow> nat" where
  "digitsValue ds = foldl (\<lambda>a c. 10 * a + digitValue c) 0 ds"

text \<open>
  The exponent part at the head of a text: \<open>e\<close> or \<open>E\<close>, an optional sign and at
  least one digit. Anything else is no exponent part, and counts as exponent 0.
\<close>

definition exponentPart :: "string \<Rightarrow> int" where
  "exponentPart s =
     (case s of
        [] \<Rightarrow> 0
      | c # r \<Rightarrow>
          if c = CHR ''e'' \<or> c = CHR ''E'' then
            (let neg = (case r of [] \<Rightarrow> False | d # r' \<Rightarrow> d = CHR ''-'');
                 r1 = (case r of [] \<Rightarrow> []
                       | d # r' \<Rightarrow> if d = CHR ''-'' \<or> d = CHR ''+'' then r' else r);
                 ds = takeWhile isDigit r1
             in if ds = [] then 0
                else if neg then - int (digitsValue ds) else int (digitsValue ds))
          else 0)"

definition scale10 :: "real \<Rightarrow> int \<Rightarrow> real" where
  "scale10 x e = (if e \<ge> 0 then x * 10 ^ nat e else x / 10 ^ nat (- e))"

definition strDecimalLiteral :: "string \<Rightarrow> jsnum" where
  "strDecimalLiteral s =
     (let neg = (case s of [] \<Rightarrow> False | c # r \<Rightarrow> c = CHR ''-'');
          s1 = (case s of [] \<Rightarrow> []
                | c # r \<Rightarrow> if c = CHR ''-'' \<or> c = CHR ''+'' then r else s)
      in if take 8 s1 = ''Infinity'' then (if neg then NegInfinity else PosInfinity)
         else
           (let ip = takeWhile isDigit s1;
                r1 = dropWhile isDigit s1;
                fp = (case r1 of [] \<Rightarrow> []
                      | c # r \<Rightarrow> if c = CHR ''.'' then takeWhile isDigit r else []);
                r2 = (case r1 of [] \<Rightarrow> []
                      | c # r \<Rightarrow> if c = CHR ''.'' then dropWhile isDigit r else r1)
            in if ip = [] \<and> fp = [] then NaN
               else
                 (let m = scale10 (real (digitsValue ip) + real (digitsValue fp) / 10 ^ length fp)
                            (exponentPart r2)
                  in Num (if neg then - m else m))))"

definition parseFloatText :: "string \<Rightarrow> jsnum" where
  "parseFloatText s = strDecimalLiteral (dropWhile isWhiteSpace s)"

text \<open>
  \<open>parseFloat\<close> of a stored text. The text of a number reads back as that number
  (also for NaN and the infinities); the JSON text of a recording starts with a
  bracket and gives NaN.
\<close>

fun parseFloat :: "stored \<Rightarrow> jsnum" where
  "parseFloat (NumberText n) = n"
| "parseFloat (GhostJson d) = NaN"
| "parseFloat (OtherText s) = parseFloatText s"

definition bestKey :: "string \<Rightarrow> string" where
  "bestKey trackId = ''polyracer_best_'' @ trackId"

definition ghostKey :: "string \<Rightarrow> string" where
  "ghostKey trackId = ''polyracer_ghost_'' @ trackId"

text \<open>\<open>saveGhost\<close> writes the JSON text of the frames the array holds at the call.\<close>

definition saveGhost :: "string \<Rightarrow> nat \<Rightarrow> arrayStore \<Rightarrow> localStorage \<Rightarrow> localStorage" where
  "saveGhost trackId data h st = st(ghostKey trackId \<mapsto> GhostJson (arrayOf h data))"

text \<open>
  \<open>loadGhost\<close>: a missing entry gives \<open>null\<close>, and so does a text that \<open>JSON.parse\<close>
  rejects; otherwise \<open>JSON.parse\<close> builds a new array. Ghost keys are written by
  \<open>saveGhost\<close> only; an entry there that is not the JSON of a recording is taken as
  rejected.
\<close>

definition loadGhost :: "string \<Rightarrow> localStorage \<Rightarrow> arrayStore \<Rightarrow> nat option \<times> arrayStore" where
  "loadGhost trackId st h =
     (case st (ghostKey trackId) of
        Some (GhostJson d) \<Rightarrow> (let (a, h1) = newArray d h in (Some a, h1))
      | _ \<Rightarrow> (None, h))"

section \<open>Timer (src/js/game/GhostCar.js, second document)\<close>

text \<open>Every method that reads \<open>performance.now()\<close> takes the reading as \<open>now\<close>.\<close>

record timer =
  startTime :: real
  currentTime :: real
  lapTimes :: "real list"
  bestTime :: "jsnum option"
  isRunning :: bool
  currentLap :: nat
  totalLaps :: nat
  lapStartTime :: real

definition newTimer :: timer where
  "newTimer =
     \<lparr>startTime = 0, currentTime = 0, lapTimes = [], bestTime = None, isRunning = False,
      currentLap = 0, totalLaps = 1, lapStartTime = 0\<rparr>"

definition start :: "real \<Rightarrow> timer \<Rightarrow> timer" where
  "start now t =
     t\<lparr>startTime := now, lapStartTime := now, currentTime := 0, lapTimes := [],
       currentLap := 1, isRunning := True\<rparr>"

definition stop :: "real \<Rightarrow> timer \<Rightarrow> real \<times> timer" where
  "stop now t =
     (let t1 = (if isRunning t then t\<lparr>currentTime := now - startTime t, isRunning := False\<rparr>
                else t)
      in (currentTime t1, t1))"

definition reset_timer :: "timer \<Rightarrow> timer" where
  "reset_timer t =
     t\<lparr>startTime := 0, currentTime := 0, lapTimes := [], currentLap := 0, isRunning := False\<rparr>"

definition update_timer :: "real \<Rightarrow> timer \<Rightarrow> timer" where
  "update_timer now t = (if isRunning t then t\<lparr>currentTime := now - startTime t\<rparr> else t)"

definition recordLap :: "real \<Rightarrow> timer \<Rightarrow> real option \<times> timer" where
  "recordLap now t =
     (if \<not> isRunning t then (None, t)
      else
        (let lapTime = now - lapStartTime t
         in (Some lapTime,
             t\<lparr>lapTimes := lapTimes t @ [lapTime], lapStartTime := now,
               currentLap := currentLap t + 1\<rparr>)))"

definition isFinished :: "timer \<Rightarrow> bool" where
  "isFinished t = (currentLap t > totalLaps t)"

definition getTime :: "timer \<Rightarrow> real" where
  "getTime t = currentTime t"

text \<open>\<open>if (saved)\<close> is false for a missing entry and for the empty text.\<close>

definition checkBestTime :: "string \<Rightarrow> timer \<Rightarrow> localStorage \<Rightarrow> jsnum option \<times> timer" where
  "checkBestTime trackId t st =
     (let t1 = (case st (bestKey trackId) of
                  Some saved \<Rightarrow>
                    (if saved = OtherText [] then t\<lparr>bestTime := None\<rparr>
                     else t\<lparr>bestTime := Some (parseFloat saved)\<rparr>)
                | None \<Rightarrow> t\<lparr>bestTime := None\<rparr>)
      in (bestTime t1, t1))"

definition saveBestTime ::
  "string \<Rightarrow> jsnum \<Rightarrow> timer \<Rightarrow> localStorage \<Rightarrow> bool \<times> timer \<times> localStorage" where
  "saveBestTime trackId time t st =
     (if (case bestTime t of None \<Rightarrow> True | Some b \<Rightarrow> js_less time b)
      then (True, t\<lparr>bestTime := Some time\<rparr>, st(bestKey trackId \<mapsto> NumberText time))
      else (False, t, st))"

section \<open>Game (src/js/game/Game.js)\<close>

datatype raceState = Menu | Ready | Countdown | Playing | Paused | Finished

text \<open>The exceptions the modelled code can throw.\<close>

datatype jsError = TypeError

text \<open>What \<open>collision.checkCheckpoint\<close> returns when \<open>hit\<close> is true.\<close>

record checkpointHit =
  cpIndex :: nat
  cpIsFinish :: bool

text \<open>
  The observer callbacks are fields that hold a function or \<open>null\<close>. A field is
  modelled by whether it is set, and a call by an entry appended to \<open>calls\<close>.
\<close>

datatype call = OnCheckpoint nat bool | OnFinish real "jsnum option" bool | OnBoost

text \<open>
  The fields of \<open>Game\<close>. \<open>currentTrackLaps\<close> is \<open>currentTrack?.laps\<close>; \<open>physics\<close> is
  linked by main.js before any race; \<open>ghostCar\<close> may be \<open>null\<close>, which the code
  tests everywhere. The last two fields are not fields of the class: the browser's
  \<open>localStorage\<close>, the record of the callbacks called, and the store of the frame
  arrays that \<open>ghostCar\<close> and \<open>currentGhostData\<close> refer to.
\<close>

record game =
  state :: raceState
  currentTrackLaps :: "nat option"
  currentTrackId :: string
  spawnPosition :: vec3
  spawnRotation :: real
  timer :: timer
  currentCheckpoint :: nat
  totalCheckpoints :: nat
  lastCheckpointPosition :: "vec3 option"
  lastCheckpointRotation :: real
  physics :: "config vehiclePhysics"
  ghostCar :: "ghostCar option"
  isRecordingGhost :: bool
  currentGhostData :: "nat option"
  waitingForStart :: bool
  countdownInterval :: bool
  onCheckpoint :: bool
  onFinish :: bool
  onBoost :: bool
  storage :: localStorage
  calls :: "call list"
  arrays :: arrayStore

definition newGame :: game where
  "newGame =
     \<lparr>state = Menu, currentTrackLaps = None, currentTrackId = ''track1'',
      spawnPosition = vec 0 0.5 5, spawnRotation = 0, timer = newTimer,
      currentCheckpoint = 1, totalCheckpoints = 0,
      lastCheckpointPosition = None, lastCheckpointRotation = 0,
      physics = newVehiclePhysics, ghostCar = None,
      isRecordingGhost = False, currentGhostData = None,
      waitingForStart = False, countdownInterval = False,
      onCheckpoint = False, onFinish = False, onBoost = False,
      storage = Map.empty, calls = [], arrays = emptyStore\<rparr>"

definition stopCountdown :: "game \<Rightarrow> game" where
  "stopCountdown g = g\<lparr>countdownInterval := False\<rparr>"

definition resetRace :: "game \<Rightarrow> game" where
  "resetRace g =
     (let g1 = (stopCountdown g)\<lparr>waitingForStart := False\<rparr>;
          g2 = g1\<lparr>physics := reset (spawnPosition g1) (spawnRotation g1) (physics g1)\<rparr>;
          g3 = g2\<lparr>timer := (reset_timer (timer g2))
                   \<lparr>totalLaps := (case currentTrackLaps g2 of None \<Rightarrow> 1
                                   | Some n \<Rightarrow> if n = 0 then 1 else n)\<rparr>\<rparr>;
          g4 = g3\<lparr>currentCheckpoint := 1,
                  lastCheckpointPosition := Some (spawnPosition g3),
                  lastCheckpointRotation := spawnRotation g3\<rparr>;
          g5 = g4\<lparr>ghostCar := map_option (\<lambda>gc. snd (stopRecording (stopPlayback gc))) (ghostCar g4)\<rparr>
      in g5\<lparr>state := Ready\<rparr>)"

definition startRace :: "game \<Rightarrow> game" where
  "startRace g = g\<lparr>state := Playing, waitingForStart := True\<rparr>"

text \<open>
  \<open>startCountdown\<close> sets the state and installs a callback that the browser calls
  once a second; the writes to the page are not modelled. \<open>countdownTick\<close> is one
  call of the callback, with the counter \<open>count\<close> of its closure (3 at the start):
  the fourth call starts the race and resolves the promise.
\<close>

definition startCountdown :: "game \<Rightarrow> game" where
  "startCountdown g = (stopCountdown g)\<lparr>state := Countdown, countdownInterval := True\<rparr>"

definition countdownTick :: "int \<Rightarrow> game \<Rightarrow> int \<times> game" where
  "countdownTick count g =
     (let c = count - 1
      in if c > 0 then (c, g)
         else if c = 0 then (c, g)
         else (c, startRace (stopCountdown g)))"

definition finishRace :: "real \<Rightarrow> game \<Rightarrow> game" where
  "finishRace now g =
     (let (finalTime, t1) = stop now (timer g);
          g1 = g\<lparr>timer := t1, state := Finished\<rparr>;
          ghostData = map_option (\<lambda>gc. fst (stopRecording gc)) (ghostCar g1);
          g2 = g1\<lparr>ghostCar := map_option (\<lambda>gc. stopPlayback (snd (stopRecording gc))) (ghostCar g1)\<rparr>;
          (isNewRecord, t2, st2) = saveBestTime (currentTrackId g2) (Num finalTime) (timer g2) (storage g2);
          g3 = g2\<lparr>timer := t2, storage := st2\<rparr>;
          g4 = (case ghostData of
                  Some d \<Rightarrow>
                    (if isNewRecord
                     then g3\<lparr>storage := saveGhost (currentTrackId g3) d (arrays g3) (storage g3),
                             currentGhostData := Some d\<rparr>
                     else g3)
                | None \<Rightarrow> g3)
      in if onFinish g4
         then g4\<lparr>calls := calls g4 @ [OnFinish finalTime (bestTime (timer g4)) isNewRecord]\<rparr>
         else g4)"

definition handleFinish :: "real \<Rightarrow> game \<Rightarrow> game" where
  "handleFinish now g =
     (if currentLap (timer g) \<ge> totalLaps (timer g) then finishRace now g
      else g\<lparr>timer := snd (recordLap now (timer g)), currentCheckpoint := 0\<rparr>)"

definition handleCheckpoint :: "real \<Rightarrow> checkpointHit \<Rightarrow> game \<Rightarrow> game" where
  "handleCheckpoint now checkpoint g =
     (if totalCheckpoints g = 0 then g
      else
        (let expectedIndex = currentCheckpoint g mod totalCheckpoints g
         in if cpIndex checkpoint \<noteq> expectedIndex then g
            else
              (let g1 = g\<lparr>lastCheckpointPosition := Some (position (physics g)),
                         lastCheckpointRotation := ey (rotation (physics g))\<rparr>;
                   g2 = g1\<lparr>currentCheckpoint := currentCheckpoint g1 + 1\<rparr>;
                   g3 = (if onCheckpoint g2
                         then g2\<lparr>calls := calls g2 @ [OnCheckpoint (cpIndex checkpoint) (cpIsFinish checkpoint)]\<rparr>
                         else g2)
               in if cpIsFinish checkpoint then handleFinish now g3 else g3)))"

text \<open>
  \<open>resetToCheckpoint\<close> passes \<open>lastCheckpointPosition\<close> to \<open>physics.reset\<close>, which
  reads its fields: when it is still \<open>null\<close> the read is a TypeError.
\<close>

definition resetToCheckpoint :: "game \<Rightarrow> jsError + game" where
  "resetToCheckpoint g =
     (if state g \<noteq> Playing then Inr g
      else case lastCheckpointPosition g of
             None \<Rightarrow> Inl TypeError
           | Some p \<Rightarrow> Inr (g\<lparr>physics := reset p (lastCheckpointRotation g) (physics g)\<rparr>))"

definition pause :: "game \<Rightarrow> game" where
  "pause g = (if state g = Playing then g\<lparr>state := Paused\<rparr> else g)"

definition resume :: "game \<Rightarrow> game" where
  "resume g = (if state g = Paused then g\<lparr>state := Playing\<rparr> else g)"

text \<open>
  The collision system as \<open>Game.update\<close> uses it: the three queries of
  \<open>CollisionSystem\<close>, each \<open>None\<close> or \<open>False\<close> when nothing is hit.
\<close>

record collision =
  checkBoostPad :: "vec3 \<Rightarrow> bool"
  checkCheckpoint :: "vec3 \<Rightarrow> checkpointHit option"
  checkBarrierCollision :: "box3 \<Rightarrow> (vec3 \<times> real) option"

text \<open>
  The part of \<open>update\<close> after the start latch, shared by both versions of the file
  but for the boost multiplier. \<open>now1\<close> is the clock as \<open>timer.update\<close> reads it and
  \<open>now2\<close> as \<open>handleCheckpoint\<close> reads it.
\<close>

definition raceTick ::
  "real \<Rightarrow> (real \<Rightarrow> checkpointHit \<Rightarrow> game \<Rightarrow> game) \<Rightarrow> (quat \<Rightarrow> quat \<Rightarrow> real \<Rightarrow> quat) \<Rightarrow> collision
     \<Rightarrow> real \<Rightarrow> real \<Rightarrow> game \<Rightarrow> game" where
  "raceTick boostMultiplier handle slerp col now1 now2 g =
     (let g1 = g\<lparr>timer := update_timer now1 (timer g)\<rparr>;
          g2 = (if checkBoostPad col (position (physics g1))
                then (let g' = g1\<lparr>physics := applyBoost boostMultiplier (physics g1)\<rparr>
                      in if onBoost g' then g'\<lparr>calls := calls g' @ [OnBoost]\<rparr> else g')
                else g1);
          g3 = (case checkCheckpoint col (position (physics g2)) of
                  Some checkpoint \<Rightarrow> handle now2 checkpoint g2
                | None \<Rightarrow> g2);
          g4 = (case ghostCar g3 of
                  None \<Rightarrow> g3
                | Some gc \<Rightarrow>
                    if isRecording gc
                    then (let (gc1, h1) = recordFrame (position (physics g3)) (quaternion (physics g3))
                                            (getTime (timer g3)) gc (arrays g3)
                          in g3\<lparr>ghostCar := Some gc1, arrays := h1\<rparr>)
                    else g3);
          g5 = (case ghostCar g4 of
                  None \<Rightarrow> g4
                | Some gc \<Rightarrow>
                    if isPlaying gc
                    then g4\<lparr>ghostCar := Some (update_ghost slerp (getTime (timer g4)) gc (arrays g4))\<rparr>
                    else g4)
      in case checkBarrierCollision col (boundingBox (physics g5)) of
           Some (normal, penetration) \<Rightarrow>
             g5\<lparr>physics := applyCollision normal penetration (physics g5)\<rparr>
         | None \<Rightarrow> g5)"

text \<open>
  \<open>update\<close> of the current version: the race clock and the ghost start on the first
  input. \<open>now0\<close> is the clock as \<open>timer.start\<close> reads it. After
  \<open>startRecording()\<close> and \<open>startPlayback(this.currentGhostData)\<close> the array being
  recorded into and the array being played are one array, \<open>currentGhostData\<close>.
\<close>

definition update_game ::
  "(quat \<Rightarrow> quat \<Rightarrow> real \<Rightarrow> quat) \<Rightarrow> collision \<Rightarrow> real \<Rightarrow> real \<Rightarrow> real \<Rightarrow> input \<Rightarrow> game \<Rightarrow> game" where
  "update_game slerp col now0 now1 now2 inp g =
     (if state g \<noteq> Playing then g
      else if waitingForStart g then
        (if throttle inp > 0 \<or> brake inp > 0 \<or> steer inp \<noteq> 0
         then
           (let g1 = g\<lparr>waitingForStart := False, timer := start now0 (timer g)\<rparr>;
                g2 = (case ghostCar g1 of
                        None \<Rightarrow> g1
                      | Some gc \<Rightarrow>
                          (let (gc1, h1) = startRecording gc (arrays g1);
                               gc2 = (case currentGhostData g1 of
                                        None \<Rightarrow> gc1
                                      | Some d \<Rightarrow> startPlayback (Some d) gc1 h1)
                           in g1\<lparr>ghostCar := Some gc2, arrays := h1\<rparr>))
            in raceTick 1.2 handleCheckpoint slerp col now1 now2 g2)
         else g)
      else raceTick 1.2 handleCheckpoint slerp col now1 now2 g)"

subsection \<open>The earlier version of the file (second document of Game.js)\<close>

text \<open>
  It differs in \<open>resetRace\<close> (the cursor starts at 0), \<open>startRace\<close> (the clock starts
  at once), \<open>update\<close> (no start latch, boost 1.5) and \<open>handleCheckpoint\<close> (no
  wrapping); \<open>handleFinish\<close>, \<open>finishRace\<close>, \<open>pause\<close> and \<open>resume\<close> are the same text.
\<close>

definition resetRace_v2 :: "game \<Rightarrow> game" where
  "resetRace_v2 g =
     (let g2 = g\<lparr>physics := reset (spawnPosition g) (spawnRotation g) (physics g)\<rparr>;
          g3 = g2\<lparr>timer := (reset_timer (timer g2))
                   \<lparr>totalLaps := (case currentTrackLaps g2 of None \<Rightarrow> 1
                                   | Some n \<Rightarrow> if n = 0 then 1 else n)\<rparr>\<rparr>;
          g4 = g3\<lparr>currentCheckpoint := 0,
                  lastCheckpointPosition := Some (spawnPosition g3),
                  lastCheckpointRotation := spawnRotation g3\<rparr>;
          g5 = g4\<lparr>ghostCar := map_option (\<lambda>gc. snd (stopRecording (stopPlayback gc))) (ghostCar g4)\<rparr>
      in g5\<lparr>state := Ready\<rparr>)"

definition startRace_v2 :: "real \<Rightarrow> game \<Rightarrow> game" where
  "startRace_v2 now g =
     (let g1 = g\<lparr>state := Playing, timer := start now (timer g)\<rparr>
      in case ghostCar g1 of
           None \<Rightarrow> g1
         | Some gc \<Rightarrow>
             (let (gc1, h1) = startRecording gc (arrays g1);
                  gc2 = (case currentGhostData g1 of
                           None \<Rightarrow> gc1
                         | Some d \<Rightarrow> startPlayback (Some d) gc1 h1)
              in g1\<lparr>ghostCar := Some gc2, arrays := h1\<rparr>))"

definition handleCheckpoint_v2 :: "real \<Rightarrow> checkpointHit \<Rightarrow> game \<Rightarrow> game" where
  "handleCheckpoint_v2 now checkpoint g =
     (if cpIndex checkpoint \<noteq> currentCheckpoint g then g
      else
        (let g1 = g\<lparr>lastCheckpointPosition := Some (position (physics g)),
                   lastCheckpointRotation := ey (rotation (physics g))\<rparr>;
             g2 = g1\<lparr>currentCheckpoint := currentCheckpoint g1 + 1\<rparr>;
             g3 = (if onCheckpoint g2
                   then g2\<lparr>calls := calls g2 @ [OnCheckpoint (cpIndex checkpoint) (cpIsFinish checkpoint)]\<rparr>
                   else g2)
         in if cpIsFinish checkpoint then handleFinish now g3 else g3))"

definition update_game_v2 ::
  "(quat \<Rightarrow> quat \<Rightarrow> real \<Rightarrow> quat) \<Rightarrow> collision \<Rightarrow> real \<Rightarrow> real \<Rightarrow> game \<Rightarrow> game" where
  "update_game_v2 slerp col now1 now2 g =
     (if state g \<noteq> Playing then g
      else raceTick 1.5 handleCheckpoint_v2 slerp col now1 now2 g)"

section \<open>SplineTrackBuilder (src/js/track/SplineTrackBuilder.js)\<close>

text \<open>\<open>Math.atan2\<close> and \<open>Vector3.normalize\<close> (which divides by \<open>length || 1\<close>).\<close>

definition atan2 :: "real \<Rightarrow> real \<Rightarrow> real" where
  "atan2 y x =
     (if x > 0 then arctan (y / x)
      else if x < 0 \<and> y \<ge> 0 then arctan (y / x) + pi
      else if x < 0 then arctan (y / x) - pi
      else if y > 0 then pi / 2
      else if y < 0 then - (pi / 2)
      else 0)"

definition normalize :: "vec3 \<Rightarrow> vec3" where
  "normalize v =
     (let l = sqrt (dot v v) in multiplyScalar v (1 / (if l = 0 then 1 else l)))"

text \<open>
  The objects the builders create are three.js meshes. A mesh is modelled by what
  it was built from: the road of the spline builder and its edge lines by the
  control points of the curve, a checkpoint gate by its position, angle and finish
  flag; a mesh of the piece builder by the size of its geometry, its material, its
  position and its rotation; a tree by its two meshes and its position. Segment
  counts and shadow flags are left out.
\<close>

datatype geometry =
  PlaneGeometry real real
| BoxGeometry real real real
| CylinderGeometry real real real
| ConeGeometry real real

datatype material =
  RoadMaterial | BarrierMaterial | CurbMaterial | CurbMaterial2 | BoostMaterial
| CheckpointMaterial | FinishMaterial | TrunkMaterial | FoliageMaterial

datatype sceneObject =
  RoadMesh "vec3 list"
| RoadEdges "vec3 list"
| Gate vec3 real bool
| Mesh geometry material vec3 euler
| Group "sceneObject list" vec3

record checkpointZone =
  zonePosition :: vec3
  zoneSize :: vec3
  zoneIndex :: nat
  zoneIsFinish :: bool
  zoneBounds :: box3

record boostPad =
  padPosition :: vec3
  padSize :: vec3
  padDirection :: vec3
  padBounds :: box3

record collisionSystem =
  trackMeshes :: "sceneObject list"
  barrierMeshes :: "sceneObject list"
  boostPads :: "boostPad list"
  checkpoints :: "checkpointZone list"

definition addTrackMesh :: "sceneObject \<Rightarrow> collisionSystem \<Rightarrow> collisionSystem" where
  "addTrackMesh mesh c = c\<lparr>trackMeshes := trackMeshes c @ [mesh]\<rparr>"

definition addCheckpoint ::
  "vec3 \<Rightarrow> vec3 \<Rightarrow> nat \<Rightarrow> bool \<Rightarrow> collisionSystem \<Rightarrow> collisionSystem" where
  "addCheckpoint pos sz index isFinish c =
     c\<lparr>checkpoints := checkpoints c @
          [\<lparr>zonePosition = pos, zoneSize = sz, zoneIndex = index, zoneIsFinish = isFinish,
            zoneBounds = setFromCenterAndSize pos sz\<rparr>]\<rparr>"

definition addBarrierMesh :: "sceneObject \<Rightarrow> collisionSystem \<Rightarrow> collisionSystem" where
  "addBarrierMesh mesh c = c\<lparr>barrierMeshes := barrierMeshes c @ [mesh]\<rparr>"

definition addBoostPad :: "vec3 \<Rightarrow> vec3 \<Rightarrow> vec3 \<Rightarrow> collisionSystem \<Rightarrow> collisionSystem" where
  "addBoostPad pos sz dir c =
     c\<lparr>boostPads := boostPads c @
          [\<lparr>padPosition = pos, padSize = sz, padDirection = dir,
            padBounds = setFromCenterAndSize pos sz\<rparr>]\<rparr>"

definition clear_collision :: "collisionSystem \<Rightarrow> collisionSystem" where
  "clear_collision c = c\<lparr>trackMeshes := [], barrierMeshes := [], boostPads := [], checkpoints := []\<rparr>"

text \<open>
  \<open>Box3.containsPoint\<close>, and the checkpoint query of the collision system: the first
  registered checkpoint whose bounds contain the position.
\<close>

definition containsPoint :: "box3 \<Rightarrow> vec3 \<Rightarrow> bool" where
  "containsPoint bx p =
     (vx p \<ge> vx (boxMin bx) \<and> vx p \<le> vx (boxMax bx)
      \<and> vy p \<ge> vy (boxMin bx) \<and> vy p \<le> vy (boxMax bx)
      \<and> vz p \<ge> vz (boxMin bx) \<and> vz p \<le> vz (boxMax bx))"

definition checkCheckpointIn :: "collisionSystem \<Rightarrow> vec3 \<Rightarrow> checkpointHit option" where
  "checkCheckpointIn c p =
     (case find (\<lambda>cp. containsPoint (zoneBounds cp) p) (checkpoints c) of
        None \<Rightarrow> None
      | Some cp \<Rightarrow> Some \<lparr>cpIndex = zoneIndex cp, cpIsFinish = zoneIsFinish cp\<rparr>)"

definition checkBoostPadIn :: "collisionSystem \<Rightarrow> vec3 \<Rightarrow> bool" where
  "checkBoostPadIn c p =
     (case find (\<lambda>pad. containsPoint (padBounds pad) p) (boostPads c) of
        None \<Rightarrow> False
      | Some pad \<Rightarrow> True)"

text \<open>
  The builder with the two objects it holds references to: the renderer (the
  groups in its scene) and the collision system. \<open>checkpointCount\<close> is not set by the
  constructor: it is \<open>undefined\<close> until the first full build.
\<close>

record splineTrackBuilder =
  scene :: "sceneObject list list"
  collisionSys :: collisionSystem
  trackGroup :: "sceneObject list"
  builderSpawnPosition :: vec3
  builderSpawnRotation :: real
  checkpointCount :: "nat option"

record trackData =
  points :: "vec3 list option"
  laps :: "nat option"

record trackInfo =
  infoSpawnPosition :: vec3
  infoSpawnRotation :: real
  infoCheckpointCount :: nat

text \<open>
  \<open>THREE.CatmullRomCurve3\<close> (closed, tension 0.5) through the control points:
  \<open>getPointAt\<close> and \<open>getTangentAt\<close> are library code and are parameters.
\<close>

record curveLib =
  getPointAt :: "vec3 list \<Rightarrow> real \<Rightarrow> vec3"
  getTangentAt :: "vec3 list \<Rightarrow> real \<Rightarrow> vec3"

definition clear :: "splineTrackBuilder \<Rightarrow> splineTrackBuilder" where
  "clear b =
     b\<lparr>scene := remove1 (trackGroup b) (scene b),
       trackGroup := [],
       collisionSys := clear_collision (collisionSys b)\<rparr>"

definition createCheckpoint ::
  "vec3 \<Rightarrow> vec3 \<Rightarrow> nat \<Rightarrow> bool \<Rightarrow> splineTrackBuilder \<Rightarrow> splineTrackBuilder" where
  "createCheckpoint pos dir index isFinish b =
     (let width = 20; height = 8;
          angle = atan2 (vx dir) (vz dir);
          b1 = b\<lparr>trackGroup := trackGroup b @ [Gate pos angle isFinish]\<rparr>;
          cpSize = vec width height 2;
          cpPos = pos\<lparr>vy := vy pos + height / 2\<rparr>
      in b1\<lparr>collisionSys := addCheckpoint cpPos cpSize index isFinish (collisionSys b1)\<rparr>)"

text \<open>The loop \<open>for (let i = 0; i < totalPoints; i += 3)\<close> that places the checkpoints.\<close>

function placeCheckpoints ::
  "curveLib \<Rightarrow> vec3 list \<Rightarrow> nat \<Rightarrow> nat \<Rightarrow> splineTrackBuilder \<Rightarrow> splineTrackBuilder" where
  "placeCheckpoints lib pts i cnt b =
     (if i < length pts then
        (let t = real i / real (length pts);
             pos0 = getPointAt lib pts t;
             tangent = normalize (getTangentAt lib pts t);
             pos = pos0\<lparr>vy := vy pos0 + 0.1\<rparr>;
             isFinish = (i = 0);
             b1 = createCheckpoint pos tangent cnt isFinish (b\<lparr>checkpointCount := Some (cnt + 1)\<rparr>)
         in placeCheckpoints lib pts (i + 3) (cnt + 1) b1)
      else b)"
  by pat_completeness auto
termination
  by (relation "measure (\<lambda>(lib, pts, i, cnt, b). length pts - i)") auto

declare placeCheckpoints.simps [simp del]

text \<open>
  \<open>build\<close>. The argument is \<open>None\<close> when the caller passes \<open>null\<close> or \<open>undefined\<close>,
  and then the read \<open>trackData.points\<close> throws. The result is the exception or the
  returned value, where \<open>Inr None\<close> is the plain \<open>return\<close> (\<open>undefined\<close>); the builder
  is returned as the call left it in every case.
\<close>

definition build ::
  "curveLib \<Rightarrow> trackData option \<Rightarrow> splineTrackBuilder
     \<Rightarrow> (jsError + trackInfo option) \<times> splineTrackBuilder" where
  "build lib trackData b =
     (let b1 = clear b
      in case trackData of
           None \<Rightarrow> (Inl TypeError, b1)
         | Some td \<Rightarrow>
             (let pts = (case points td of None \<Rightarrow> [] | Some ps \<Rightarrow> ps)
              in if length pts < 2 then (Inr None, b1)
                 else
                   (let road = RoadMesh pts;
                        b2 = b1\<lparr>trackGroup := trackGroup b1 @ [road, RoadEdges pts]\<rparr>;
                        startPoint = getPointAt lib pts 0;
                        startTangent = normalize (getTangentAt lib pts 0);
                        b3 = b2\<lparr>builderSpawnPosition := startPoint\<lparr>vy := vy startPoint + 2\<rparr>,
                                builderSpawnRotation := atan2 (vx startTangent) (vz startTangent)\<rparr>;
                        b4 = b3\<lparr>collisionSys := addTrackMesh road (collisionSys b3)\<rparr>;
                        b5 = placeCheckpoints lib pts 0 0 (b4\<lparr>checkpointCount := Some 0\<rparr>);
                        b6 = b5\<lparr>scene := scene b5 @ [trackGroup b5]\<rparr>
                    in (Inr (Some \<lparr>infoSpawnPosition = builderSpawnPosition b6,
                                   infoSpawnRotation = builderSpawnRotation b6,
                                   infoCheckpointCount =
                                     (case checkpointCount b6 of Some n \<Rightarrow> n | None \<Rightarrow> 0)\<rparr>),
                        b6))))"

text \<open>
  \<open>Game.loadTrack\<close> (current version) with the builder main.js links to the game.
  It reads \<open>trackInfo.spawnPosition\<close> straight after \<open>build\<close>, which throws a
  TypeError when \<open>build\<close> has returned \<open>undefined\<close>.
\<close>

definition loadTrack ::
  "curveLib \<Rightarrow> trackData option \<Rightarrow> string \<Rightarrow> game \<Rightarrow> splineTrackBuilder
     \<Rightarrow> (jsError + unit) \<times> game \<times> splineTrackBuilder" where
  "loadTrack lib trackData trackId g b =
     (let g1 = g\<lparr>currentTrackId := trackId,
                currentTrackLaps := (case trackData of None \<Rightarrow> None | Some td \<Rightarrow> laps td)\<rparr>;
          (res, b1) = build lib trackData b
      in case res of
           Inl e \<Rightarrow> (Inl e, g1, b1)
         | Inr None \<Rightarrow> (Inl TypeError, g1, b1)
         | Inr (Some trackInfo) \<Rightarrow>
             (let g2 = g1\<lparr>spawnPosition := infoSpawnPosition trackInfo,
                        spawnRotation := infoSpawnRotation trackInfo,
                        totalCheckpoints := infoCheckpointCount trackInfo\<rparr>;
                  g3 = g2\<lparr>timer := snd (checkBestTime trackId (timer g2) (storage g2))\<rparr>;
                  g4 = (case ghostCar g3 of
                          None \<Rightarrow> g3
                        | Some gc \<Rightarrow>
                            (let (ghostData, h1) = loadGhost trackId (storage g3) (arrays g3)
                             in case ghostData of
                                  None \<Rightarrow> g3\<lparr>arrays := h1\<rparr>
                                | Some d \<Rightarrow> g3\<lparr>currentGhostData := Some d, arrays := h1\<rparr>))
              in (Inr (), resetRace g4, b1)))"

section \<open>TrackBuilder (src/js/track/TrackBuilder.js)\<close>

text \<open>
  A piece of a track file. Every field may be missing. \<open>x || d\<close> gives the default
  \<open>d\<close> when \<open>x\<close> is missing and also when it is 0.
\<close>

record piece =
  pieceType :: "string option"
  pieceLength :: "real option"
  pieceWidth :: "real option"
  pieceAngle :: "real option"
  pieceHeightChange :: "real option"
  pieceRadius :: "real option"
  pieceJumpHeight :: "real option"
  pieceIsFinish :: "bool option"

record pieceTrackData =
  pieces :: "piece list option"
  decorations :: "(real \<times> real) list option"

definition orDefault :: "real option \<Rightarrow> real \<Rightarrow> real" where
  "orDefault x d = (case x of None \<Rightarrow> d | Some v \<Rightarrow> if v = 0 then d else v)"

record trackBuilder =
  tbScene :: "sceneObject list list"
  tbCollision :: collisionSystem
  tbTrackGroup :: "sceneObject list"
  tbSpawnPosition :: vec3
  tbSpawnRotation :: real
  tbCheckpointCount :: nat

definition addToGroup :: "sceneObject \<Rightarrow> trackBuilder \<Rightarrow> trackBuilder" where
  "addToGroup obj b = b\<lparr>tbTrackGroup := tbTrackGroup b @ [obj]\<rparr>"

definition addCurbs :: "vec3 \<Rightarrow> real \<Rightarrow> real \<Rightarrow> real \<Rightarrow> real \<Rightarrow> trackBuilder \<Rightarrow> trackBuilder" where
  "addCurbs pos dir len width height b =
     (let curbGeo = BoxGeometry 0.5 0.1 len;
          leftCurb = Mesh curbGeo CurbMaterial
                       (vec (vx pos + sin dir * len / 2 + cos dir * (width / 2 + 0.25))
                            (height + 0.05)
                            (vz pos + cos dir * len / 2 - sin dir * (width / 2 + 0.25)))
                       \<lparr>ex = 0, ey = - dir, ez = 0\<rparr>;
          b1 = addToGroup leftCurb b;
          rightCurb = Mesh curbGeo CurbMaterial2
                       (vec (vx pos + sin dir * len / 2 - cos dir * (width / 2 + 0.25))
                            (height + 0.05)
                            (vz pos + cos dir * len / 2 + sin dir * (width / 2 + 0.25)))
                       \<lparr>ex = 0, ey = - dir, ez = 0\<rparr>
      in addToGroup rightCurb b1)"

definition addBarriers :: "vec3 \<Rightarrow> real \<Rightarrow> real \<Rightarrow> real \<Rightarrow> real \<Rightarrow> trackBuilder \<Rightarrow> trackBuilder" where
  "addBarriers pos dir len width height b =
     (let barrierGeo = BoxGeometry 0.3 0.8 len;
          leftBarrier = Mesh barrierGeo BarrierMaterial
                       (vec (vx pos + sin dir * len / 2 + cos dir * (width / 2 + 0.8))
                            (height + 0.4)
                            (vz pos + cos dir * len / 2 - sin dir * (width / 2 + 0.8)))
                       \<lparr>ex = 0, ey = - dir, ez = 0\<rparr>;
          b1 = addToGroup leftBarrier b;
          b2 = b1\<lparr>tbCollision := addBarrierMesh leftBarrier (tbCollision b1)\<rparr>;
          rightBarrier = Mesh barrierGeo BarrierMaterial
                       (vec (vx pos + sin dir * len / 2 - cos dir * (width / 2 + 0.8))
                            (height + 0.4)
                            (vz pos + cos dir * len / 2 + sin dir * (width / 2 + 0.8)))
                       \<lparr>ex = 0, ey = - dir, ez = 0\<rparr>;
          b3 = addToGroup rightBarrier b2
      in b3\<lparr>tbCollision := addBarrierMesh rightBarrier (tbCollision b3)\<rparr>)"

definition buildStraight ::
  "vec3 \<Rightarrow> real \<Rightarrow> real \<Rightarrow> real \<Rightarrow> real \<Rightarrow> trackBuilder \<Rightarrow> vec3 \<times> trackBuilder" where
  "buildStraight pos dir len width height b =
     (let road = Mesh (PlaneGeometry width len) RoadMaterial
                   (vec (vx pos + sin dir * len / 2) (height + 0.01) (vz pos + cos dir * len / 2))
                   \<lparr>ex = - pi / 2, ey = 0, ez = - dir\<rparr>;
          b1 = addToGroup road b;
          b2 = b1\<lparr>tbCollision := addTrackMesh road (tbCollision b1)\<rparr>;
          b3 = addCurbs pos dir len width height b2;
          b4 = addBarriers pos dir len width height b3
      in (vec (vx pos + sin dir * len) height (vz pos + cos dir * len), b4))"

text \<open>The loop of \<open>buildCurve\<close>, with the number of segments still to build.\<close>

fun curveSegments ::
  "nat \<Rightarrow> real \<Rightarrow> real \<Rightarrow> real \<Rightarrow> real \<Rightarrow> vec3 \<Rightarrow> real \<Rightarrow> trackBuilder \<Rightarrow> vec3 \<times> trackBuilder" where
  "curveSegments 0 radius segmentAngle width height currentPos currentDir b = (currentPos, b)"
| "curveSegments (Suc n) radius segmentAngle width height currentPos currentDir b =
     (let arcLength = radius * \<bar>segmentAngle\<bar>;
          (endPos, b1) = buildStraight currentPos currentDir arcLength width height b
      in curveSegments n radius segmentAngle width height endPos (currentDir + segmentAngle) b1)"

text \<open>
  \<open>buildCurve\<close>. With angle 0 there is no segment and the quotient
  \<open>angle / segments\<close> is not used.
\<close>

definition buildCurve ::
  "vec3 \<Rightarrow> real \<Rightarrow> real \<Rightarrow> real \<Rightarrow> real \<Rightarrow> real \<Rightarrow> trackBuilder
     \<Rightarrow> (vec3 \<times> real) \<times> trackBuilder" where
  "buildCurve pos dir radius angle width height b =
     (let segments = nat \<lceil>\<bar>angle\<bar> / 0.2\<rceil>;
          segmentAngle = angle / real segments;
          (currentPos, b1) = curveSegments segments radius segmentAngle width height pos dir b
      in ((currentPos, dir + angle), b1))"

definition buildRamp ::
  "vec3 \<Rightarrow> real \<Rightarrow> real \<Rightarrow> real \<Rightarrow> real \<Rightarrow> real \<Rightarrow> trackBuilder \<Rightarrow> vec3 \<times> trackBuilder" where
  "buildRamp pos dir len width heightChange startHeight b =
     (let hypotenuse = sqrt (len * len + heightChange * heightChange);
          rampAngle = atan2 heightChange len;
          midHeight = startHeight + heightChange / 2;
          road = Mesh (PlaneGeometry width hypotenuse) RoadMaterial
                   (vec (vx pos + sin dir * len / 2) (midHeight + 0.01) (vz pos + cos dir * len / 2))
                   \<lparr>ex = - pi / 2 + rampAngle, ey = 0, ez = - dir\<rparr>;
          b1 = addToGroup road b;
          b2 = b1\<lparr>tbCollision := addTrackMesh road (tbCollision b1)\<rparr>
      in (vec (vx pos + sin dir * len) (startHeight + heightChange) (vz pos + cos dir * len), b2))"

definition buildJump ::
  "vec3 \<Rightarrow> real \<Rightarrow> real \<Rightarrow> real \<Rightarrow> real \<Rightarrow> real \<Rightarrow> trackBuilder \<Rightarrow> vec3 \<times> trackBuilder" where
  "buildJump pos dir len width jumpHeight height b =
     (let rampLength = len * 0.4;
          (rampEnd, b1) = buildRamp pos dir rampLength width jumpHeight height b;
          topLength = len * 0.2;
          (topEnd, b2) = buildStraight rampEnd dir topLength width (height + jumpHeight) b1;
          (downEnd, b3) = buildRamp topEnd dir rampLength width (- jumpHeight) (height + jumpHeight) b2
      in (vec (vx pos + sin dir * len) height (vz pos + cos dir * len), b3))"

text \<open>The loop of \<open>buildLoop\<close> over the segments \<open>i\<close>, \<open>i + 1\<close>, ... below 16.\<close>

function loopSegments ::
  "nat \<Rightarrow> vec3 \<Rightarrow> real \<Rightarrow> real \<Rightarrow> real \<Rightarrow> real \<Rightarrow> trackBuilder \<Rightarrow> trackBuilder" where
  "loopSegments i pos dir radius width height b =
     (if i < 16 then
        (let segmentAngle = (pi * 2) / 16;
             angle = real i * segmentAngle;
             nextAngle = real (i + 1) * segmentAngle;
             y1 = height + radius + cos angle * radius;
             z1 = vz pos + sin angle * radius;
             y2 = height + radius + cos nextAngle * radius;
             z2 = vz pos + sin nextAngle * radius;
             segmentLength = sqrt ((z2 - z1) ^ 2 + (y2 - y1) ^ 2);
             road = Mesh (PlaneGeometry width segmentLength) RoadMaterial
                      (vec (vx pos + sin dir * radius) ((y1 + y2) / 2) ((z1 + z2) / 2))
                      \<lparr>ex = - angle - segmentAngle / 2, ey = 0, ez = - dir\<rparr>;
             b1 = addToGroup road b;
             b2 = b1\<lparr>tbCollision := addTrackMesh road (tbCollision b1)\<rparr>
         in loopSegments (i + 1) pos dir radius width height b2)
      else b)"
  by pat_completeness auto
termination
  by (relation "measure (\<lambda>(i, pos, dir, radius, width, height, b). 16 - i)") auto

declare loopSegments.simps [simp del]

definition buildLoop ::
  "vec3 \<Rightarrow> real \<Rightarrow> real \<Rightarrow> real \<Rightarrow> real \<Rightarrow> trackBuilder \<Rightarrow> vec3 \<times> trackBuilder" where
  "buildLoop pos dir radius width height b =
     (let b1 = loopSegments 0 pos dir radius width height b
      in (vec (vx pos + sin dir * (radius * 2)) height (vz pos + radius * 2), b1))"

text \<open>One of the three arrows on a boost pad.\<close>

definition boostArrow :: "nat \<Rightarrow> vec3 \<Rightarrow> real \<Rightarrow> real \<Rightarrow> real \<Rightarrow> real \<Rightarrow> sceneObject" where
  "boostArrow i pos dir len width height =
     (let offset = (real i - 1) * (len * 0.25)
      in Mesh (PlaneGeometry (width * 0.4) (len * 0.15)) FinishMaterial
           (vec (vx pos + sin dir * (len / 2 + offset)) (height + 0.03)
                (vz pos + cos dir * (len / 2 + offset)))
           \<lparr>ex = - pi / 2, ey = 0, ez = - dir\<rparr>)"

definition buildBoostPad ::
  "vec3 \<Rightarrow> real \<Rightarrow> real \<Rightarrow> real \<Rightarrow> real \<Rightarrow> trackBuilder \<Rightarrow> vec3 \<times> trackBuilder" where
  "buildBoostPad pos dir len width height b =
     (let boost = Mesh (PlaneGeometry (width * 0.6) len) BoostMaterial
                    (vec (vx pos + sin dir * len / 2) (height + 0.02) (vz pos + cos dir * len / 2))
                    \<lparr>ex = - pi / 2, ey = 0, ez = - dir\<rparr>;
          b1 = addToGroup boost b;
          b2 = addToGroup (boostArrow 0 pos dir len width height) b1;
          b3 = addToGroup (boostArrow 1 pos dir len width height) b2;
          b4 = addToGroup (boostArrow 2 pos dir len width height) b3;
          boostPos = vec (vx pos + sin dir * len / 2) (height + 1) (vz pos + cos dir * len / 2);
          boostSize = vec (width * 0.6) 2 len;
          boostDir = vec (sin dir) 0 (cos dir);
          b5 = b4\<lparr>tbCollision := addBoostPad boostPos boostSize boostDir (tbCollision b4)\<rparr>
      in buildStraight pos dir len width height b5)"

definition buildCheckpoint ::
  "vec3 \<Rightarrow> real \<Rightarrow> real \<Rightarrow> real \<Rightarrow> nat \<Rightarrow> bool \<Rightarrow> trackBuilder \<Rightarrow> trackBuilder" where
  "buildCheckpoint pos dir width height index isFinish b =
     (let mat = (if isFinish then FinishMaterial else CheckpointMaterial);
          postGeo = BoxGeometry 0.5 4 0.5;
          offset = width / 2 + 0.5;
          postL = Mesh postGeo mat
                    (vec (vx pos + cos dir * offset) (height + 2) (vz pos - sin dir * offset))
                    \<lparr>ex = 0, ey = 0, ez = 0\<rparr>;
          postR = Mesh postGeo mat
                    (vec (vx pos - cos dir * offset) (height + 2) (vz pos + sin dir * offset))
                    \<lparr>ex = 0, ey = 0, ez = 0\<rparr>;
          b1 = addToGroup postR (addToGroup postL b);
          bar = Mesh (BoxGeometry (width + 1) 0.5 0.5) mat (vec (vx pos) (height + 4) (vz pos))
                  \<lparr>ex = 0, ey = dir, ez = 0\<rparr>;
          b2 = addToGroup bar b1;
          cpPos = vec (vx pos) (height + 2) (vz pos);
          cpSize = vec (width + 2) 4 2
      in b2\<lparr>tbCollision := addCheckpoint cpPos cpSize index isFinish (tbCollision b2)\<rparr>)"

text \<open>
  \<open>buildPiece\<close>. The result is the end position, direction and height. A type that
  is none of the eight cases, or a missing one, falls through the \<open>switch\<close>.
\<close>

definition buildPiece ::
  "piece \<Rightarrow> vec3 \<Rightarrow> real \<Rightarrow> real \<Rightarrow> nat \<Rightarrow> trackBuilder \<Rightarrow> (vec3 \<times> real \<times> real) \<times> trackBuilder" where
  "buildPiece p startPos startDir startHeight index b =
     (let len = orDefault (pieceLength p) 20;
          width = orDefault (pieceWidth p) 14;
          angle = orDefault (pieceAngle p) 0;
          heightChange = orDefault (pieceHeightChange p) 0
      in if pieceType p = Some ''straight'' then
           (let (endPos, b1) = buildStraight startPos startDir len width startHeight b
            in ((endPos, startDir, startHeight + heightChange), b1))
         else if pieceType p = Some ''curve'' then
           (let (curveResult, b1) =
                  buildCurve startPos startDir (orDefault (pieceRadius p) 30) angle width startHeight b
            in ((fst curveResult, startDir + angle, startHeight), b1))
         else if pieceType p = Some ''ramp'' then
           (let (endPos, b1) = buildRamp startPos startDir len width heightChange startHeight b
            in ((endPos, startDir, startHeight + heightChange), b1))
         else if pieceType p = Some ''jump'' then
           (let (endPos, b1) =
                  buildJump startPos startDir len width (orDefault (pieceJumpHeight p) 3) startHeight b
            in ((endPos, startDir, startHeight), b1))
         else if pieceType p = Some ''loop'' then
           (let (endPos, b1) =
                  buildLoop startPos startDir (orDefault (pieceRadius p) 10) width startHeight b
            in ((endPos, startDir, startHeight), b1))
         else if pieceType p = Some ''boost'' then
           (let (endPos, b1) = buildBoostPad startPos startDir len width startHeight b
            in ((endPos, startDir, startHeight), b1))
         else if pieceType p = Some ''checkpoint'' then
           (let b1 = buildCheckpoint startPos startDir width startHeight (tbCheckpointCount b)
                       (case pieceIsFinish p of None \<Rightarrow> False | Some f \<Rightarrow> f)
                       (b\<lparr>tbCheckpointCount := tbCheckpointCount b + 1\<rparr>)
            in ((startPos, startDir, startHeight), b1))
         else if pieceType p = Some ''finish'' then
           (let b1 = buildCheckpoint startPos startDir width startHeight (tbCheckpointCount b) True
                       (b\<lparr>tbCheckpointCount := tbCheckpointCount b + 1\<rparr>)
            in ((startPos, startDir, startHeight), b1))
         else ((startPos, startDir, startHeight), b))"

definition addTree :: "real \<Rightarrow> real \<Rightarrow> trackBuilder \<Rightarrow> trackBuilder" where
  "addTree x z b =
     addToGroup
       (Group [Mesh (CylinderGeometry 0.3 0.4 2) TrunkMaterial (vec 0 1 0) \<lparr>ex = 0, ey = 0, ez = 0\<rparr>,
               Mesh (ConeGeometry 1.5 3) FoliageMaterial (vec 0 3.5 0) \<lparr>ex = 0, ey = 0, ez = 0\<rparr>]
              (vec x 0 z)) b"

definition addDecorations :: "pieceTrackData \<Rightarrow> trackBuilder \<Rightarrow> trackBuilder" where
  "addDecorations td b =
     (case decorations td of
        None \<Rightarrow> b
      | Some ds \<Rightarrow> foldl (\<lambda>b1 (x, z). addTree x z b1) b ds)"

definition clear_tb :: "trackBuilder \<Rightarrow> trackBuilder" where
  "clear_tb b =
     b\<lparr>tbScene := remove1 (tbTrackGroup b) (tbScene b),
       tbTrackGroup := [],
       tbCollision := clear_collision (tbCollision b),
       tbCheckpointCount := 0\<rparr>"

text \<open>The \<open>forEach\<close> over the pieces, which carries position, direction and height.\<close>

fun buildPieces ::
  "piece list \<Rightarrow> nat \<Rightarrow> vec3 \<Rightarrow> real \<Rightarrow> real \<Rightarrow> trackBuilder \<Rightarrow> trackBuilder" where
  "buildPieces [] index pos dir height b = b"
| "buildPieces (p # ps) index pos dir height b =
     (let ((endPosition, endDirection, endHeight), b1) = buildPiece p pos dir height index b
      in buildPieces ps (index + 1) endPosition endDirection endHeight b1)"

text \<open>
  \<open>TrackBuilder.build\<close>. The read \<open>trackData.pieces.forEach\<close> throws a TypeError when
  the argument is \<open>null\<close> or has no \<open>pieces\<close> field, after the track has been cleared
  and the spawn point set.
\<close>

definition build_tb ::
  "pieceTrackData option \<Rightarrow> trackBuilder \<Rightarrow> (jsError + trackInfo) \<times> trackBuilder" where
  "build_tb trackData b =
     (let b1 = clear_tb b;
          b2 = b1\<lparr>tbSpawnPosition := vec 0 0.5 5, tbSpawnRotation := 0\<rparr>
      in case trackData of
           None \<Rightarrow> (Inl TypeError, b2)
         | Some td \<Rightarrow>
             (case pieces td of
                None \<Rightarrow> (Inl TypeError, b2)
              | Some ps \<Rightarrow>
                  (let b3 = buildPieces ps 0 (vec 0 0 0) 0 0 b2;
                       b4 = addDecorations td b3;
                       b5 = b4\<lparr>tbScene := tbScene b4 @ [tbTrackGroup b4]\<rparr>
                   in (Inr \<lparr>infoSpawnPosition = tbSpawnPosition b5,
                             infoSpawnRotation = pi,
                             infoCheckpointCount = tbCheckpointCount b5\<rparr>, b5))))"

section \<open>PolyRacer (src/js/main.js)\<close>

text \<open>
  \<open>PolyRacer.loadTrack(trackId)\<close> fetches the track file and passes its content to
  \<open>Game.loadTrack\<close> inside a \<open>try\<close> block; the \<open>catch\<close> logs the error and returns
  \<open>null\<close>. The content of the file is the parameter \<open>trackData\<close>; the camera calls
  are not modelled. The result is the returned value with the game and the builder
  as the call leaves them.
\<close>

definition loadTrack_main ::
  "curveLib \<Rightarrow> trackData option \<Rightarrow> string \<Rightarrow> game \<Rightarrow> splineTrackBuilder
     \<Rightarrow> trackData option \<times> game \<times> splineTrackBuilder" where
  "loadTrack_main lib trackData trackId g b =
     (let (res, g1, b1) = loadTrack lib trackData trackId g b
      in case res of
           Inl e \<Rightarrow> (None, g1, b1)
         | Inr u \<Rightarrow> (trackData, g1, b1))"

text \<open>
  The callback \<open>menu.onPlay\<close>: it awaits \<open>loadTrack\<close> without looking at what it
  returns, resets the race and awaits the countdown, which is four calls of the
  interval callback. Menu, HUD and engine calls are not modelled.
\<close>

definition onPlay ::
  "curveLib \<Rightarrow> trackData option \<Rightarrow> string \<Rightarrow> game \<Rightarrow> splineTrackBuilder
     \<Rightarrow> game \<times> splineTrackBuilder" where
  "onPlay lib trackData trackId g b =
     (let (r, g1, b1) = loadTrack_main lib trackData trackId g b;
          g2 = resetRace g1;
          g3 = startCountdown g2;
          (c1, g4) = countdownTick 3 g3;
          (c2, g5) = countdownTick c1 g4;
          (c3, g6) = countdownTick c2 g5;
          (c4, g7) = countdownTick c3 g6
      in (g7, b1))"

section \<open>Notions used in the statements\<close>

text \<open>
  The forward speed of a vehicle: the projection of its velocity on its forward
  axis, which is what \<open>update\<close> stores in \<open>speed\<close> at its end.
\<close>

definition forwardSpeedOf :: "'c vehiclePhysics \<Rightarrow> real" where
  "forwardSpeedOf s = dot (velocity s) (forwardAxis (quaternion s))"

text \<open>
  A grounded update on flat ground, for VehiclePhysics.js: the ground check of this
  update finds ground, the alignment angles of the ground it finds are zero, and the
  car sits level on it (no pitch, no roll, \<open>quaternion\<close> in step with \<open>rotation\<close>).
\<close>

definition onFlatGround ::
  "(vec3 \<Rightarrow> euler) \<Rightarrow> trackCollision option \<Rightarrow> config vehiclePhysics \<Rightarrow> bool" where
  "onFlatGround groundEuler tc s =
     (isGrounded (updateGroundState tc s)
      \<and> groundEuler (groundNormal (updateGroundState tc s)) = \<lparr>ex = 0, ey = 0, ez = 0\<rparr>
      \<and> ex (rotation s) = 0 \<and> ez (rotation s) = 0
      \<and> quaternion s = setFromEuler (rotation s))"

text \<open>
  The alignment angles of level ground. The concrete examples below run on the
  ground plane, whose normal is the world up axis, for which the angles are zero.
\<close>

definition levelGroundEuler :: "vec3 \<Rightarrow> euler" where
  "levelGroundEuler n = \<lparr>ex = 0, ey = 0, ez = 0\<rparr>"

text \<open>
  \<open>n\<close> consecutive physics updates under the same input, as the fixed-step loop of
  the engine runs them (\<open>fixedUpdate\<close> of main.js calls \<open>physics.update\<close> once per
  step).
\<close>

fun fixedUpdates ::
  "nat \<Rightarrow> (vec3 \<Rightarrow> euler) \<Rightarrow> input \<Rightarrow> real \<Rightarrow> trackCollision option \<Rightarrow> config vehiclePhysics
     \<Rightarrow> config vehiclePhysics" where
  "fixedUpdates 0 groundEuler inp dt tc s = s"
| "fixedUpdates (Suc n) groundEuler inp dt tc s =
     fixedUpdates n groundEuler inp dt tc (update groundEuler inp dt tc s)"

text \<open>
  An example state for the tire-model version: a car as its constructor builds it,
  level, heading along \<open>-z\<close>, rolling forward at 10 m/s.
\<close>

definition rolling_p5 :: "config_p5 vehiclePhysics" where
  "rolling_p5 =
     \<lparr>position = vec 0 0 0, rotation = \<lparr>ex = 0, ey = 0, ez = 0\<rparr>,
      quaternion = identityQuat, velocity = vec 0 0 (-10), angularVelocity = 0,
      isGrounded = True, groundNormal = vec 0 1 0, groundHeight = 0,
      config = defaultConfig_p5, speed = 10, steerAngle = 0, isDrifting = False,
      driftFactor = 0,
      wheelOffsets = [vec (-0.7) 0 1.2, vec 0.7 0 1.2, vec (-0.7) 0 (-1.2), vec 0.7 0 (-1.2)],
      boundingBox = \<lparr>boxMin = vec 0 0 0, boxMax = vec 0 0 0\<rparr>,
      size = vec 1.5 1 3\<rparr>"

text \<open>
  The advance of the progression state on an accepted checkpoint, in the words of
  the specification: the pose and heading are cached, the cursor goes up by one and
  the observer is called (when one is set).
\<close>

definition advance :: "checkpointHit \<Rightarrow> game \<Rightarrow> game" where
  "advance checkpoint g =
     g\<lparr>lastCheckpointPosition := Some (position (physics g)),
       lastCheckpointRotation := ey (rotation (physics g)),
       currentCheckpoint := currentCheckpoint g + 1,
       calls := (if onCheckpoint g
                 then calls g @ [OnCheckpoint (cpIndex checkpoint) (cpIsFinish checkpoint)]
                 else calls g)\<rparr>"

text \<open>
  Example inputs of \<open>Game.update\<close>: a collision system that reports nothing, one
  that reports the car inside the finish-line zone, full throttle, and the hit of a
  plain checkpoint.
\<close>

definition openRoad :: collision where
  "openRoad =
     \<lparr>checkBoostPad = (\<lambda>p. False),
      checkCheckpoint = (\<lambda>p. None),
      checkBarrierCollision = (\<lambda>b. None)\<rparr>"

definition finishLine :: checkpointHit where
  "finishLine = \<lparr>cpIndex = 0, cpIsFinish = True\<rparr>"

definition onFinishLine :: collision where
  "onFinishLine = openRoad\<lparr>checkCheckpoint := (\<lambda>p. Some finishLine)\<rparr>"

definition fullThrottle :: input where
  "fullThrottle = \<lparr>throttle = 1, brake = 0, steer = 0, drift = False\<rparr>"

definition gate :: "nat \<Rightarrow> checkpointHit" where
  "gate n = \<lparr>cpIndex = n, cpIsFinish = False\<rparr>"

text \<open>
  An example race of the current version, reached by the operations of the class: a
  spline track of four checkpoints (the finish line is checkpoint 0, as
  \<open>SplineTrackBuilder\<close> numbers them) and two laps is loaded, the race is reset and
  started, the first input starts the clock at 0, and checkpoints 1, 2 and 3 are
  passed. Lap 1 is under way and the cursor is 4.
\<close>

definition lapOneGame :: game where
  "lapOneGame =
     handleCheckpoint 900 (gate 3)
       (handleCheckpoint 600 (gate 2)
          (handleCheckpoint 300 (gate 1)
             (update_game (\<lambda>a b k. a) openRoad 0 0 0 fullThrottle
                (startRace
                   (resetRace (newGame\<lparr>totalCheckpoints := 4, currentTrackLaps := Some 2\<rparr>))))))"

text \<open>
  An example race of the earlier version: three plain checkpoints and no finish
  line, all three passed, so the cursor is 3.
\<close>

definition allPassed_v2 :: game where
  "allPassed_v2 =
     handleCheckpoint_v2 900 (gate 2)
       (handleCheckpoint_v2 600 (gate 1)
          (handleCheckpoint_v2 300 (gate 0)
             (startRace_v2 0
                (resetRace_v2 (newGame\<lparr>currentCheckpoint := 0, totalCheckpoints := 3\<rparr>)))))"

text \<open>
  The games that can arise: a game in the menu state, as the constructor leaves it
  and with whatever main.js has linked to it, and whatever the operations of the
  current version make of it in any order (a track load that throws included, since
  main.js catches the exception and goes on). \<open>clockRuns\<close> says that the race clock is
  running whenever the race is under way (playing or paused, and past the start
  latch).
\<close>

definition clockRuns :: "game \<Rightarrow> bool" where
  "clockRuns g = ((state g = Playing \<or> state g = Paused) \<and> \<not> waitingForStart g \<longrightarrow> isRunning (timer g))"

inductive reachable :: "game \<Rightarrow> bool" where
  menu: "state g = Menu \<Longrightarrow> reachable g"
| load: "reachable g \<Longrightarrow> loadTrack lib trackData trackId g b = (res, g', b') \<Longrightarrow> reachable g'"
| reset: "reachable g \<Longrightarrow> reachable (resetRace g)"
| countdown: "reachable g \<Longrightarrow> reachable (startCountdown g)"
| count: "reachable g \<Longrightarrow> countdownTick c g = (c', g') \<Longrightarrow> reachable g'"
| start: "reachable g \<Longrightarrow> reachable (startRace g)"
| tick: "reachable g \<Longrightarrow> reachable (update_game slerp col now0 now1 now2 inp g)"
| toCheckpoint: "reachable g \<Longrightarrow> resetToCheckpoint g = Inr g' \<Longrightarrow> reachable g'"
| pause: "reachable g \<Longrightarrow> reachable (pause g)"
| resume: "reachable g \<Longrightarrow> reachable (resume g)"

text \<open>A builder as its constructor leaves it, and a curve library for the examples.\<close>

definition newSplineTrackBuilder :: splineTrackBuilder where
  "newSplineTrackBuilder =
     \<lparr>scene = [],
      collisionSys = \<lparr>trackMeshes = [], barrierMeshes = [], boostPads = [], checkpoints = []\<rparr>,
      trackGroup = [], builderSpawnPosition = vec 0 0 0, builderSpawnRotation = 0,
      checkpointCount = None\<rparr>"

definition polylineLib :: curveLib where
  "polylineLib =
     \<lparr>getPointAt = (\<lambda>pts t. case pts of [] \<Rightarrow> vec 0 0 0 | p # _ \<Rightarrow> p),
      getTangentAt = (\<lambda>pts t. vec 0 0 1)\<rparr>"

text \<open>A piece builder as its constructor leaves it.\<close>

definition newTrackBuilder :: trackBuilder where
  "newTrackBuilder =
     \<lparr>tbScene = [],
      tbCollision = \<lparr>trackMeshes = [], barrierMeshes = [], boostPads = [], checkpoints = []\<rparr>,
      tbTrackGroup = [], tbSpawnPosition = vec 0 0 0, tbSpawnRotation = 0,
      tbCheckpointCount = 0\<rparr>"

text \<open>
  Example track inputs: a piece that has a type and no other field, and a spline
  track with a single control point and three laps.
\<close>

definition bareRamp :: piece where
  "bareRamp =
     \<lparr>pieceType = Some ''ramp'', pieceLength = None, pieceWidth = None, pieceAngle = None,
      pieceHeightChange = None, pieceRadius = None, pieceJumpHeight = None,
      pieceIsFinish = None\<rparr>"

definition onePointTrack :: trackData where
  "onePointTrack = \<lparr>points = Some [vec 0 0 0], laps = Some 3\<rparr>"

text \<open>The frames of the array a ghost car records into and plays from.\<close>

abbreviation playedFrames :: "ghostCar \<Rightarrow> arrayStore \<Rightarrow> ghostFrame list" where
  "playedFrames gc h \<equiv> arrayOf h (recordedData gc)"

text \<open>
  A recording in order: the timestamps increase strictly and none is later than
  \<open>lastRecordTime\<close>.
\<close>

definition orderedRecording :: "ghostCar \<Rightarrow> arrayStore \<Rightarrow> bool" where
  "orderedRecording gc h =
     (sorted_wrt (<) (map frameTime (playedFrames gc h))
      \<and> (\<forall>f \<in> set (playedFrames gc h). frameTime f \<le> lastRecordTime gc)
      \<and> 0 < recordInterval gc)"

definition frameAt :: "real \<Rightarrow> vec3 \<Rightarrow> ghostFrame" where
  "frameAt t p = \<lparr>frameTime = t, framePosition = p, frameQuaternion = identityQuat\<rparr>"



text \<open>
  An example race with a ghost, of the current version. The best run stored for
  track1 has two frames, at 100 ms and 1100 ms. main.js has linked its ghost car to
  a new game; \<open>onPlay\<close> loads track1 (two control points), which loads the ghost,
  and the countdown starts the race. The first input, a steering input, comes with
  the clock at 0; the first update runs at 200 ms and the second at 650 ms.
\<close>

definition bestGhost :: "ghostFrame list" where
  "bestGhost = [frameAt 100 (vec 0 0 0), frameAt 1100 (vec 10 0 0)]"


definition ghostRace :: game where
  "ghostRace =
     (let (gc, h) = newGhostCar emptyStore;
          g0 = newGame\<lparr>ghostCar := Some gc, arrays := h,
                      storage := [ghostKey ''track1'' \<mapsto> GhostJson bestGhost]\<rparr>
      in fst (onPlay polylineLib
                (Some \<lparr>points = Some [vec 0 0 0, vec 0 0 50], laps = None\<rparr>)
                ''track1'' g0 newSplineTrackBuilder))"



section \<open>Properties of the vector library\<close>

lemma dot_add_left: "dot (add a b) c = dot a c + dot b c"
  by (simp add: dot_def add_def vec_def algebra_simps)

lemma dot_scale_left: "dot (multiplyScalar a k) c = k * dot a c"
  by (simp add: dot_def multiplyScalar_def vec_def algebra_simps)

lemma dot_sub_left: "dot (sub a b) c = dot a c - dot b c"
  by (simp add: dot_def sub_def vec_def algebra_simps)

lemma forwardAxis_unit: "unitQuat q \<Longrightarrow> dot (forwardAxis q) (forwardAxis q) = 1"
proof -
  assume u: "unitQuat q"
  have "dot (forwardAxis q) (forwardAxis q)
          = (qx q * qx q + qy q * qy q + qz q * qz q + qw q * qw q)\<^sup>2"
    by (simp add: dot_def forwardAxis_def applyQuaternion_def vec_def Let_def
          power2_eq_square algebra_simps)
  with u show ?thesis by (simp add: unitQuat_def)
qed

lemma rightAxis_forwardAxis: "dot (rightAxis q) (forwardAxis q) = 0"
  by (simp add: dot_def forwardAxis_def rightAxis_def applyQuaternion_def vec_def Let_def
        algebra_simps)

text \<open>
  Every quaternion made from Euler angles is a unit quaternion, and the class keeps
  \<open>quaternion\<close> in step with \<open>rotation\<close>: \<open>reset\<close> and \<open>update\<close> end with
  \<open>quaternion.setFromEuler(rotation)\<close>.
\<close>

lemma unitQuat_setFromEuler: "unitQuat (setFromEuler e)"
proof -
  define s1 c1 s2 c2 s3 c3 where
    d: "s1 = sin (ex e / 2)" "c1 = cos (ex e / 2)"
       "s2 = sin (ey e / 2)" "c2 = cos (ey e / 2)"
       "s3 = sin (ez e / 2)" "c3 = cos (ez e / 2)"
  have u: "s1\<^sup>2 + c1\<^sup>2 = 1" "s2\<^sup>2 + c2\<^sup>2 = 1" "s3\<^sup>2 + c3\<^sup>2 = 1"
    by (simp_all add: d)
  have "(s1 * c2 * c3 + c1 * s2 * s3) * (s1 * c2 * c3 + c1 * s2 * s3)
        + (c1 * s2 * c3 - s1 * c2 * s3) * (c1 * s2 * c3 - s1 * c2 * s3)
        + (c1 * c2 * s3 + s1 * s2 * c3) * (c1 * c2 * s3 + s1 * s2 * c3)
        + (c1 * c2 * c3 - s1 * s2 * s3) * (c1 * c2 * c3 - s1 * s2 * s3)
        = (s1\<^sup>2 + c1\<^sup>2) * (s2\<^sup>2 + c2\<^sup>2) * (s3\<^sup>2 + c3\<^sup>2)"
    by (simp add: power2_eq_square algebra_simps)
  also have "\<dots> = 1" by (simp add: u)
  finally show ?thesis
    by (simp add: unitQuat_def setFromEuler_def Let_def d)
qed

lemma update_quaternion_in_step:
  "quaternion (update groundEuler inp dt tc s)
     = setFromEuler (rotation (update groundEuler inp dt tc s))"
  by (simp add: update_def Let_def updateBoundingBox_def updateGroundedPhysics_def
        alignToGround_def updateAirPhysics_def)

lemma reset_quaternion_in_step:
  "quaternion (reset pos rot s) = setFromEuler (rotation (reset pos rot s))"
  by (simp add: reset_def Let_def)

lemma update_unitQuat: "unitQuat (quaternion (update groundEuler inp dt tc s))"
  by (simp add: update_quaternion_in_step unitQuat_setFromEuler)

section \<open>Timer: best time\<close>




lemma checkBestTime_number:
  "st (bestKey trackId) = Some (NumberText b) \<Longrightarrow> fst (checkBestTime trackId t st) = Some b"
  by (simp add: checkBestTime_def)

lemma checkBestTime_missing:
  "st (bestKey trackId) = None \<Longrightarrow> fst (checkBestTime trackId t st) = None"
  by (simp add: checkBestTime_def)

text \<open>
  An entry that \<open>parseFloat\<close> cannot read as a number is loaded as NaN, not as
  \<open>null\<close>; no time is less than NaN, so no time is saved for that track afterwards.
  \<open>loadGhost\<close>, next to it, takes an unreadable entry as no entry.
\<close>

lemma checkBestTime_unreadable_never_saves:
  assumes "st (bestKey trackId) = Some saved" and "saved \<noteq> OtherText []"
    and "parseFloat saved = NaN"
  shows "fst (saveBestTime trackId time (snd (checkBestTime trackId t st)) st) = False"
proof -
  have "bestTime (snd (checkBestTime trackId t st)) = Some NaN"
    using assms by (simp add: checkBestTime_def)
  then show ?thesis by (cases time) (simp_all add: saveBestTime_def)
qed




section \<open>Game: pause and resume\<close>

text \<open>
  C10. \<open>pause()\<close> in a state other than playing and \<open>resume()\<close> in a state other than
  paused change nothing. Neither ever changes the vehicle physics, the timer, the
  checkpoint cursor or the ghost car: the only effect is \<open>state\<close> going from playing
  to paused (\<open>pause\<close>) or from paused to playing (\<open>resume\<close>).
\<close>

theorem pause_resume_only_toggle:
  "(state g \<noteq> Playing \<longrightarrow> pause g = g)
   \<and> (state g \<noteq> Paused \<longrightarrow> resume g = g)
   \<and> (state g = Playing \<longrightarrow> pause g = g\<lparr>state := Paused\<rparr>)
   \<and> (state g = Paused \<longrightarrow> resume g = g\<lparr>state := Playing\<rparr>)
   \<and> physics (pause g) = physics g \<and> physics (resume g) = physics g
   \<and> timer (pause g) = timer g \<and> timer (resume g) = timer g
   \<and> currentCheckpoint (pause g) = currentCheckpoint g
   \<and> currentCheckpoint (resume g) = currentCheckpoint g
   \<and> ghostCar (pause g) = ghostCar g \<and> ghostCar (resume g) = ghostCar g"
  by (simp add: pause_def resume_def)

theorem pause_resume_only_toggle_witness:
  "pause (newGame\<lparr>state := Playing\<rparr>) = newGame\<lparr>state := Paused\<rparr>
   \<and> resume (newGame\<lparr>state := Paused\<rparr>) = newGame\<lparr>state := Playing\<rparr>
   \<and> pause newGame = newGame \<and> resume newGame = newGame"
  using pause_resume_only_toggle[of "newGame\<lparr>state := Playing\<rparr>"]
        pause_resume_only_toggle[of "newGame\<lparr>state := Paused\<rparr>"]
        pause_resume_only_toggle[of newGame]
  by (simp add: newGame_def)

section \<open>VehiclePhysics: collision and boost\<close>

text \<open>
  C5. For a unit collision normal and a penetration depth that is not negative, when
  the velocity has a strictly inward component along the normal before
  \<open>applyCollision\<close>, the component along the normal afterwards is not negative (it is
  0.35 times the inward component, turned outward).
\<close>

theorem applyCollision_not_inward:
  "dot normal normal = 1 \<Longrightarrow> penetration \<ge> 0 \<Longrightarrow> dot (velocity s) normal < 0 \<Longrightarrow>
     dot (velocity (applyCollision normal penetration s)) normal = - 0.35 * dot (velocity s) normal
     \<and> dot (velocity (applyCollision normal penetration s)) normal \<ge> 0"
proof -
  assume n: "dot normal normal = 1" and p: "penetration \<ge> 0" and d: "dot (velocity s) normal < 0"
  have "dot (velocity (applyCollision normal penetration s)) normal
        = 0.7 * (dot (velocity s) normal - (dot (velocity s) normal * 1.5) * dot normal normal)"
    using d by (simp add: applyCollision_def Let_def dot_scale_left dot_sub_left)
  with n have "dot (velocity (applyCollision normal penetration s)) normal
                 = - 0.35 * dot (velocity s) normal"
    by simp
  with d show ?thesis by simp
qed

theorem applyCollision_not_inward_witness:
  "dot (vec 1 0 0) (vec 1 0 0) = 1 \<and> (0.1::real) \<ge> 0
   \<and> dot (velocity (newVehiclePhysics\<lparr>velocity := vec (-10) 0 0\<rparr>)) (vec 1 0 0) < 0
   \<and> dot (velocity (applyCollision (vec 1 0 0) 0.1 (newVehiclePhysics\<lparr>velocity := vec (-10) 0 0\<rparr>)))
          (vec 1 0 0) = 3.5"
proof -
  have n: "dot (vec 1 0 0) (vec 1 0 0) = 1" by (simp add: dot_def vec_def)
  have p: "(0.1::real) \<ge> 0" by simp
  have d: "dot (velocity (newVehiclePhysics\<lparr>velocity := vec (-10) 0 0\<rparr>)) (vec 1 0 0) < 0"
    by (simp add: dot_def vec_def)
  from applyCollision_not_inward[OF n p d] n p d show ?thesis
    by (simp add: dot_def vec_def)
qed

lemma dot_commute: "dot a b = dot b a"
  by (simp add: dot_def algebra_simps)

lemma unitQuat_identity: "unitQuat identityQuat"
  by (simp add: unitQuat_def identityQuat_def)

lemma forwardAxis_identity: "forwardAxis identityQuat = vec 0 0 (-1)"
  by (simp add: forwardAxis_def applyQuaternion_def identityQuat_def vec_def)

lemma rightAxis_identity: "rightAxis identityQuat = vec 1 0 0"
  by (simp add: rightAxis_def applyQuaternion_def identityQuat_def vec_def)

text \<open>
  C6, as stated, fails: \<open>applyBoost\<close> overwrites the whole velocity, so a sideways
  component is lost. A car heading along \<open>-z\<close> with velocity \<open>(5, 0, -10)\<close> has lateral
  speed 5 before the boost and 0 after it.
\<close>

theorem applyBoost_lateral_counterexample:
  "dot (velocity (newVehiclePhysics\<lparr>velocity := vec 5 0 (-10), speed := 10\<rparr>))
       (rightAxis (quaternion (newVehiclePhysics\<lparr>velocity := vec 5 0 (-10), speed := 10\<rparr>))) = 5
   \<and> dot (velocity (applyBoost 1.5 (newVehiclePhysics\<lparr>velocity := vec 5 0 (-10), speed := 10\<rparr>)))
         (rightAxis (quaternion (applyBoost 1.5 (newVehiclePhysics\<lparr>velocity := vec 5 0 (-10), speed := 10\<rparr>)))) = 0"
  by (simp add: applyBoost_def newVehiclePhysics_def defaultConfig_def Let_def
        forwardAxis_identity rightAxis_identity dot_def vec_def multiplyScalar_def)

text \<open>
  C6, amended. For every vehicle state (with a unit orientation quaternion) and every
  multiplier, \<open>applyBoost\<close> changes the velocity only, and sets it to the forward axis
  scaled by \<open>min(speed * multiplier, maxSpeed * 1.2)\<close>, where \<open>speed\<close> is the field
  \<open>this.speed\<close>: the component along the forward axis becomes that value and the
  lateral component becomes zero.
\<close>

theorem applyBoost_sets_velocity:
  "unitQuat (quaternion s) \<Longrightarrow>
     applyBoost m s
       = s\<lparr>velocity := multiplyScalar (forwardAxis (quaternion s))
                          (min (speed s * m) (maxSpeed (config s) * 1.2))\<rparr>
   \<and> dot (velocity (applyBoost m s)) (forwardAxis (quaternion (applyBoost m s)))
       = min (speed s * m) (maxSpeed (config s) * 1.2)
   \<and> dot (velocity (applyBoost m s)) (rightAxis (quaternion (applyBoost m s))) = 0"
proof -
  assume u: "unitQuat (quaternion s)"
  have o: "dot (forwardAxis (quaternion s)) (rightAxis (quaternion s)) = 0"
    using rightAxis_forwardAxis[of "quaternion s"] dot_commute[of "forwardAxis (quaternion s)"]
    by simp
  show ?thesis
    using u o by (simp add: applyBoost_def Let_def dot_scale_left forwardAxis_unit)
qed

theorem applyBoost_sets_velocity_witness:
  "unitQuat (quaternion (newVehiclePhysics\<lparr>velocity := vec 5 0 (-10), speed := 10\<rparr>))
   \<and> velocity (applyBoost 1.5 (newVehiclePhysics\<lparr>velocity := vec 5 0 (-10), speed := 10\<rparr>))
       = vec 0 0 (-15)"
proof -
  have u: "unitQuat (quaternion (newVehiclePhysics\<lparr>velocity := vec 5 0 (-10), speed := 10\<rparr>))"
    by (simp add: newVehiclePhysics_def unitQuat_identity)
  from applyBoost_sets_velocity[OF u, of "1.5"] u show ?thesis
    by (simp add: newVehiclePhysics_def defaultConfig_def forwardAxis_identity
          multiplyScalar_def vec_def)
qed

section \<open>VehiclePhysics: the update on flat ground\<close>

lemma setFromEuler_yaw:
  "setFromEuler \<lparr>ex = 0, ey = y, ez = 0\<rparr> = \<lparr>qx = 0, qy = sin (y / 2), qz = 0, qw = cos (y / 2)\<rparr>"
  by (simp add: setFromEuler_def)

lemma setFromEuler_zero: "setFromEuler \<lparr>ex = 0, ey = 0, ez = 0\<rparr> = identityQuat"
  by (simp add: setFromEuler_def identityQuat_def)

lemma unitQuat_yaw: "unitQuat (setFromEuler \<lparr>ex = 0, ey = y, ez = 0\<rparr>)"
  by (simp add: setFromEuler_yaw unitQuat_def power2_eq_square[symmetric])

lemma forwardAxis_yaw_vy: "vy (forwardAxis (setFromEuler \<lparr>ex = 0, ey = y, ez = 0\<rparr>)) = 0"
  by (simp add: setFromEuler_yaw forwardAxis_def applyQuaternion_def vec_def)

lemma yaw_rotation: "ex r = 0 \<Longrightarrow> ez r = 0 \<Longrightarrow> r = \<lparr>ex = 0, ey = ey r, ez = 0\<rparr>"
  by (cases r) simp

text \<open>The ground check leaves the orientation and the horizontal velocity alone.\<close>

lemma updateGroundState_frame:
  "rotation (updateGroundState tc s) = rotation s"
  "quaternion (updateGroundState tc s) = quaternion s"
  "config (updateGroundState tc s) = config s"
  "steerAngle (updateGroundState tc s) = steerAngle s"
  "vx (velocity (updateGroundState tc s)) = vx (velocity s)"
  "vz (velocity (updateGroundState tc s)) = vz (velocity s)"
  by (simp_all add: updateGroundState_def Let_def split: option.splits)

lemma dot_flat: "vy f = 0 \<Longrightarrow> vx a = vx b \<Longrightarrow> vz a = vz b \<Longrightarrow> dot a f = dot b f"
  by (simp add: dot_def)

text \<open>
  On level ground the velocity is rebuilt along the new axes and the alignment does
  not turn them, so the forward speed after the grounded step is the value the
  local variable \<open>forwardSpeed\<close> ended with.
\<close>

lemma updateGroundedPhysics_flat:
  assumes r: "rotation s = \<lparr>ex = 0, ey = y, ez = 0\<rparr>"
      and g: "groundEuler (groundNormal s) = \<lparr>ex = 0, ey = 0, ez = 0\<rparr>"
  shows "forwardSpeedOf (updateGroundedPhysics groundEuler thr brk str drf dt s)
         = naturalDeceleration thr brk
             (brakeStep (config s) brk dt (throttleStep (config s) thr dt (forwardSpeedOf s)))"
  using r g
  by (simp add: updateGroundedPhysics_def alignToGround_def Let_def forwardSpeedOf_def
        dot_add_left dot_scale_left forwardAxis_unit unitQuat_yaw rightAxis_forwardAxis
      split del: if_split)

lemma update_flat:
  assumes f: "onFlatGround groundEuler tc s"
  shows "speed (update groundEuler inp dt tc s)
         = naturalDeceleration (throttle inp) (brake inp)
             (brakeStep (config s) (brake inp) dt
                (throttleStep (config s) (throttle inp) dt (forwardSpeedOf s)))"
proof -
  let ?s1 = "updateGroundState tc s"
  let ?s2 = "updateGroundedPhysics groundEuler (throttle inp) (brake inp) (steer inp) (drift inp) dt ?s1"
  from f have r: "rotation s = \<lparr>ex = 0, ey = ey (rotation s), ez = 0\<rparr>"
    using yaw_rotation[of "rotation s"] by (simp add: onFlatGround_def)
  from f have "quaternion s = setFromEuler (rotation s)" by (simp add: onFlatGround_def)
  with r have q: "quaternion s = setFromEuler \<lparr>ex = 0, ey = ey (rotation s), ez = 0\<rparr>"
    by metis
  have r1: "rotation ?s1 = \<lparr>ex = 0, ey = ey (rotation s), ez = 0\<rparr>"
    using r by (simp add: updateGroundState_frame)
  from f have g1: "groundEuler (groundNormal ?s1) = \<lparr>ex = 0, ey = 0, ez = 0\<rparr>"
    by (simp add: onFlatGround_def)
  from f have gr: "isGrounded ?s1" by (simp add: onFlatGround_def)
  have "dot (velocity ?s1) (forwardAxis (quaternion s)) = dot (velocity s) (forwardAxis (quaternion s))"
    by (rule dot_flat) (simp_all add: q forwardAxis_yaw_vy updateGroundState_frame)
  then have fs: "forwardSpeedOf ?s1 = forwardSpeedOf s"
    by (simp add: forwardSpeedOf_def updateGroundState_frame)
  have "speed (update groundEuler inp dt tc s) = forwardSpeedOf ?s2"
    using gr by (simp add: update_def Let_def updateBoundingBox_def forwardSpeedOf_def)
  also have "\<dots> = naturalDeceleration (throttle inp) (brake inp)
                     (brakeStep (config ?s1) (brake inp) dt
                        (throttleStep (config ?s1) (throttle inp) dt (forwardSpeedOf ?s1)))"
    by (rule updateGroundedPhysics_flat[of ?s1 "ey (rotation s)" groundEuler, OF r1 g1])
  finally show ?thesis by (simp add: fs updateGroundState_frame)
qed

lemma onFlatGround_at_rest:
  "onFlatGround levelGroundEuler None (newVehiclePhysics\<lparr>velocity := v, config := c\<rparr>)
     = (0 \<le> suspensionHeight c)"
  by (simp add: onFlatGround_def levelGroundEuler_def updateGroundState_def
        newVehiclePhysics_def Let_def setFromEuler_zero vec_def)






text \<open>
  The scenario of the specification at the fixed step of the engine. On the ground
  plane a level car stays level and on the ground from one update to the next, and
  as long as the speed stays below \<open>maxSpeed\<close> every update under throttle adds
  \<open>acceleration * throttle * dt\<close>.
\<close>

lemma rightAxis_yaw_vy: "vy (rightAxis (setFromEuler \<lparr>ex = 0, ey = y, ez = 0\<rparr>)) = 0"
  by (simp add: setFromEuler_yaw rightAxis_def applyQuaternion_def vec_def Let_def)

lemma update_speed_is_forward_speed:
  "speed (update groundEuler inp dt tc s) = forwardSpeedOf (update groundEuler inp dt tc s)"
  by (simp add: update_def Let_def forwardSpeedOf_def)

lemma update_config: "config (update groundEuler inp dt tc s) = config s"
  by (simp add: update_def Let_def updateBoundingBox_def updateGroundedPhysics_def
        alignToGround_def updateAirPhysics_def updateGroundState_frame)

lemma updateGroundedPhysics_flat_pose:
  assumes r: "rotation s = \<lparr>ex = 0, ey = y, ez = 0\<rparr>"
      and g: "groundEuler (groundNormal s) = \<lparr>ex = 0, ey = 0, ez = 0\<rparr>"
  shows "ex (rotation (updateGroundedPhysics groundEuler thr brk str drf dt s)) = 0"
    and "ez (rotation (updateGroundedPhysics groundEuler thr brk str drf dt s)) = 0"
    and "vy (velocity (updateGroundedPhysics groundEuler thr brk str drf dt s)) = 0"
    and "position (updateGroundedPhysics groundEuler thr brk str drf dt s) = position s"
  using r g
  by (simp_all add: updateGroundedPhysics_def alignToGround_def Let_def
        add_def multiplyScalar_def vec_def forwardAxis_yaw_vy rightAxis_yaw_vy
      split del: if_split)

lemma onFlatGround_plane_preserved:
  assumes f: "onFlatGround groundEuler None s"
      and z: "groundEuler (vec 0 1 0) = \<lparr>ex = 0, ey = 0, ez = 0\<rparr>"
  shows "onFlatGround groundEuler None (update groundEuler inp dt None s)"
proof -
  let ?s1 = "updateGroundState None s"
  let ?s2 = "updateGroundedPhysics groundEuler (throttle inp) (brake inp) (steer inp) (drift inp) dt ?s1"
  let ?s' = "update groundEuler inp dt None s"
  from f have gr: "isGrounded ?s1" by (simp add: onFlatGround_def)
  then have low: "vy (position s) \<le> suspensionHeight (config s)"
    by (simp add: updateGroundState_def Let_def split: if_splits)
  then have p1: "vy (position ?s1) = suspensionHeight (config s)"
    and n1: "groundNormal ?s1 = vec 0 1 0"
    by (simp_all add: updateGroundState_def Let_def)
  from f have r: "rotation s = \<lparr>ex = 0, ey = ey (rotation s), ez = 0\<rparr>"
    using yaw_rotation[of "rotation s"] by (simp add: onFlatGround_def)
  have r1: "rotation ?s1 = \<lparr>ex = 0, ey = ey (rotation s), ez = 0\<rparr>"
    using r by (simp add: updateGroundState_frame)
  have g1: "groundEuler (groundNormal ?s1) = \<lparr>ex = 0, ey = 0, ez = 0\<rparr>"
    by (simp add: n1 z)
  note pose = updateGroundedPhysics_flat_pose[of ?s1 "ey (rotation s)" groundEuler, OF r1 g1]
  have s': "?s' = (updateBoundingBox
                     (?s2\<lparr>position := add (position ?s2) (multiplyScalar (velocity ?s2) dt)\<rparr>))
                    \<lparr>speed := dot (velocity ?s2) (forwardAxis (quaternion ?s2))\<rparr>"
    using gr by (simp add: update_def Let_def updateBoundingBox_def)
  have py: "vy (position ?s') = suspensionHeight (config s)"
    unfolding s' by (simp add: updateBoundingBox_def add_def multiplyScalar_def vec_def pose p1)
  have rot: "ex (rotation ?s') = 0" "ez (rotation ?s') = 0"
    unfolding s' by (simp_all add: updateBoundingBox_def pose)
  have cfg: "config ?s' = config s" by (rule update_config)
  have "isGrounded (updateGroundState None ?s')"
    and "groundNormal (updateGroundState None ?s') = vec 0 1 0"
    using py cfg by (simp_all add: updateGroundState_def Let_def)
  with rot z show ?thesis
    by (simp add: onFlatGround_def update_quaternion_in_step)
qed

lemma fixedUpdates_throttle:
  assumes z: "groundEuler (vec 0 1 0) = \<lparr>ex = 0, ey = 0, ez = 0\<rparr>"
      and t: "0 < throttle inp" and b: "brake inp = 0" and d: "0 < dt"
  shows "onFlatGround groundEuler None s \<Longrightarrow> 0 < acceleration (config s) \<Longrightarrow>
         forwardSpeedOf s + real n * (acceleration (config s) * throttle inp * dt)
           \<le> maxSpeed (config s) \<Longrightarrow>
         forwardSpeedOf (fixedUpdates n groundEuler inp dt None s)
           = forwardSpeedOf s + real n * (acceleration (config s) * throttle inp * dt)"
proof (induction n arbitrary: s)
  case 0
  then show ?case by simp
next
  case (Suc n)
  let ?s' = "update groundEuler inp dt None s"
  let ?inc = "acceleration (config s) * throttle inp * dt"
  have inc: "0 < ?inc" using Suc.prems t d by simp
  have lt: "forwardSpeedOf s < maxSpeed (config s)"
  proof -
    have "forwardSpeedOf s < forwardSpeedOf s + real (Suc n) * ?inc" using inc by simp
    with Suc.prems(3) show ?thesis by simp
  qed
  have step: "forwardSpeedOf ?s' = forwardSpeedOf s + ?inc"
    using Suc.prems(1) t b lt
    by (simp add: update_speed_is_forward_speed[symmetric] update_flat naturalDeceleration_def
          brakeStep_def throttleStep_def)
  have f': "onFlatGround groundEuler None ?s'"
    by (rule onFlatGround_plane_preserved[OF Suc.prems(1) z])
  have c': "config ?s' = config s" by (rule update_config)
  have "forwardSpeedOf (fixedUpdates n groundEuler inp dt None ?s')
          = forwardSpeedOf ?s' + real n * (acceleration (config ?s') * throttle inp * dt)"
    using f' Suc.prems(2,3) by (intro Suc.IH) (simp_all add: c' step algebra_simps)
  then show ?case by (simp add: c' step algebra_simps)
qed

lemma full_throttle_one_second:
  "forwardSpeedOf
     (fixedUpdates 60 levelGroundEuler fullThrottle (1 / 60) None
        (newVehiclePhysics\<lparr>velocity := vec 0 0 0,
                           config := defaultConfig\<lparr>maxSpeed := 90, acceleration := 30\<rparr>\<rparr>))
   = 30"
proof -
  let ?s = "newVehiclePhysics\<lparr>velocity := vec 0 0 0,
                              config := defaultConfig\<lparr>maxSpeed := 90, acceleration := 30\<rparr>\<rparr>"
  have f: "onFlatGround levelGroundEuler None ?s"
    by (simp add: onFlatGround_at_rest defaultConfig_def)
  have v: "forwardSpeedOf ?s = 0"
    by (simp add: forwardSpeedOf_def newVehiclePhysics_def forwardAxis_identity dot_def vec_def)
  have a: "0 < acceleration (config ?s)" by (simp add: defaultConfig_def)
  have m: "forwardSpeedOf ?s + real 60 * (acceleration (config ?s) * throttle fullThrottle * (1 / 60))
             \<le> maxSpeed (config ?s)"
    unfolding v by (simp add: defaultConfig_def fullThrottle_def)
  have "forwardSpeedOf (fixedUpdates 60 levelGroundEuler fullThrottle (1 / 60) None ?s)
          = forwardSpeedOf ?s + real 60 * (acceleration (config ?s) * throttle fullThrottle * (1 / 60))"
    by (rule fixedUpdates_throttle[OF _ _ _ _ f a m])
       (simp_all add: levelGroundEuler_def fullThrottle_def)
  then show ?thesis
    unfolding v by (simp add: defaultConfig_def fullThrottle_def)
qed

text \<open>
  What C7 asks of the rolling resistance holds in VehiclePhysics.js: with no throttle
  and no brake, a grounded update on flat ground multiplies the forward speed by
  0.995, whatever dt is.
\<close>

lemma update_coasting_decays:
  assumes "onFlatGround groundEuler tc s"
      and "throttle inp = 0" and "brake inp = 0" and "forwardSpeedOf s \<noteq> 0"
  shows "speed (update groundEuler inp dt tc s) = 0.995 * forwardSpeedOf s
         \<and> \<bar>speed (update groundEuler inp dt tc s)\<bar> < \<bar>forwardSpeedOf s\<bar>
         \<and> 0 < speed (update groundEuler inp dt tc s) * forwardSpeedOf s"
proof -
  have e: "speed (update groundEuler inp dt tc s) = 0.995 * forwardSpeedOf s"
    using assms(1,2,3)
    by (simp add: update_flat naturalDeceleration_def brakeStep_def throttleStep_def)
  have a: "\<bar>0.995 * forwardSpeedOf s\<bar> < \<bar>forwardSpeedOf s\<bar>"
    using assms(4) by (simp add: abs_mult)
  have b: "0 < (0.995 * forwardSpeedOf s) * forwardSpeedOf s"
    using assms(4) by (simp add: zero_less_mult_iff) arith
  show ?thesis unfolding e using a b by blast
qed

text \<open>
  The stick-to-track version writes the same value back: on level ground its
  grounded step leaves the forward speed at the value \<open>forwardSpeed\<close> ended with,
  the gravity it adds being vertical there.
\<close>

lemma updateGroundedPhysics_p6_flat:
  assumes r: "rotation s = \<lparr>ex = 0, ey = y, ez = 0\<rparr>"
      and n: "groundNormal s = vec 0 1 0"
      and g: "groundEuler (vec 0 1 0) = \<lparr>ex = 0, ey = 0, ez = 0\<rparr>"
  shows "forwardSpeedOf (updateGroundedPhysics_p6 groundEuler thr brk str drf dt s)
         = naturalDeceleration thr brk
             (brakeStep (config s) brk dt (throttleStep (config s) thr dt (forwardSpeedOf s)))"
proof -
  have v: "dot (vec 0 1 0) (forwardAxis (setFromEuler \<lparr>ex = 0, ey = a, ez = 0\<rparr>)) = 0" for a
    using forwardAxis_yaw_vy[of a] by (simp add: dot_def vec_def)
  show ?thesis
    using r n g
    by (simp add: updateGroundedPhysics_p6_def alignToGround_def Let_def forwardSpeedOf_def
          dot_add_left dot_scale_left forwardAxis_unit unitQuat_yaw rightAxis_forwardAxis v
        split del: if_split)
qed

section \<open>VehiclePhysics, tire-model version: the grounded step\<close>

lemma downAxis_forwardAxis: "dot (applyQuaternion (vec 0 (-1) 0) q) (forwardAxis q) = 0"
  by (simp add: dot_def forwardAxis_def applyQuaternion_def vec_def Let_def algebra_simps)

lemma dot_vy_update: "vy f = 0 \<Longrightarrow> dot (a\<lparr>vy := k\<rparr>) f = dot a f"
  by (simp add: dot_def)

text \<open>
  In the tire-model version the grounded step computes \<open>forwardSpeed\<close> (throttle,
  brake, rolling resistance, drag) but rebuilds the velocity from the projections of
  the old velocity. On level ground, with the wheels straight, the forward speed
  after the step is the forward speed before it, for every throttle, brake and dt.
\<close>

lemma updateGroundedPhysics_p5_forward_speed_unchanged:
  assumes r: "rotation s = \<lparr>ex = 0, ey = y, ez = 0\<rparr>"
      and q: "quaternion s = setFromEuler (rotation s)"
      and g: "groundEuler (groundNormal s) = \<lparr>ex = 0, ey = 0, ez = 0\<rparr>"
      and a: "steerAngle s = 0"
  shows "forwardSpeedOf (updateGroundedPhysics_p5 groundEuler thr brk 0 drf dt s) = forwardSpeedOf s"
  using r q g a
  by (simp add: updateGroundedPhysics_p5_def alignToGround_def Let_def forwardSpeedOf_def
        dot_add_left dot_scale_left forwardAxis_unit unitQuat_yaw rightAxis_forwardAxis
        downAxis_forwardAxis dot_vy_update forwardAxis_yaw_vy
      split del: if_split)

text \<open>
  C7 at a concrete input of the tire-model version: a level car rolling forward at
  10 m/s with no input still has forward speed 10 after a grounded step of 1/60 s.
  The claim asks for a strictly smaller magnitude.
\<close>

theorem updateGroundedPhysics_p5_no_decay:
  "forwardSpeedOf rolling_p5 = 10
   \<and> forwardSpeedOf (updateGroundedPhysics_p5 levelGroundEuler 0 0 0 False (1 / 60) rolling_p5) = 10"
proof -
  have v: "forwardSpeedOf rolling_p5 = 10"
    by (simp add: forwardSpeedOf_def rolling_p5_def forwardAxis_identity dot_def vec_def)
  have "forwardSpeedOf (updateGroundedPhysics_p5 levelGroundEuler 0 0 0 False (1 / 60) rolling_p5)
          = forwardSpeedOf rolling_p5"
    by (rule updateGroundedPhysics_p5_forward_speed_unchanged[where y = 0])
       (simp_all add: rolling_p5_def levelGroundEuler_def setFromEuler_zero)
  with v show ?thesis by simp
qed

section \<open>SplineTrackBuilder: the checkpoints of a built track\<close>

text \<open>
  A built spline track has one checkpoint for every third control point, numbered
  from 0 in the order of the loop, and the finish flag is on checkpoint 0 and on no
  other. Every hit the collision system reports on such a track is finish-flagged
  exactly when its index is 0.
\<close>

lemma createCheckpoint_zones:
  "checkpoints (collisionSys (createCheckpoint pos dir index isFinish b))
     = checkpoints (collisionSys b) @
       [\<lparr>zonePosition = pos\<lparr>vy := vy pos + 4\<rparr>, zoneSize = vec 20 8 2, zoneIndex = index,
         zoneIsFinish = isFinish,
         zoneBounds = setFromCenterAndSize (pos\<lparr>vy := vy pos + 4\<rparr>) (vec 20 8 2)\<rparr>]"
  by (simp add: createCheckpoint_def addCheckpoint_def Let_def)

lemma createCheckpoint_count:
  "checkpointCount (createCheckpoint pos dir index isFinish b) = checkpointCount b"
  by (simp add: createCheckpoint_def Let_def)

lemma placeCheckpoints_zones:
  "i = 3 * cnt \<Longrightarrow> 3 * cnt < length pts + 3 \<Longrightarrow>
   map (\<lambda>z. (zoneIndex z, zoneIsFinish z)) (checkpoints (collisionSys b))
     = map (\<lambda>k. (k, k = 0)) [0..<cnt] \<Longrightarrow>
   map (\<lambda>z. (zoneIndex z, zoneIsFinish z))
       (checkpoints (collisionSys (placeCheckpoints lib pts i cnt b)))
     = map (\<lambda>k. (k, k = 0)) [0..<(length pts + 2) div 3]"
proof (induction lib pts i cnt b rule: placeCheckpoints.induct)
  case (1 lib pts i cnt b)
  show ?case
  proof (cases "i < length pts")
    case True
    let ?t = "real i / real (length pts)"
    let ?pos0 = "getPointAt lib pts ?t"
    let ?b1 = "createCheckpoint (?pos0\<lparr>vy := vy ?pos0 + 0.1\<rparr>)
                 (normalize (getTangentAt lib pts ?t))
                 cnt (i = 0) (b\<lparr>checkpointCount := Some (cnt + 1)\<rparr>)"
    have z: "map (\<lambda>z. (zoneIndex z, zoneIsFinish z)) (checkpoints (collisionSys ?b1))
             = map (\<lambda>k. (k, k = 0)) [0..<cnt + 1]"
      using "1.prems"(1,3) by (simp add: createCheckpoint_zones)
    have "map (\<lambda>z. (zoneIndex z, zoneIsFinish z))
            (checkpoints (collisionSys (placeCheckpoints lib pts (i + 3) (cnt + 1) ?b1)))
          = map (\<lambda>k. (k, k = 0)) [0..<(length pts + 2) div 3]"
      using True "1.prems"(1) z
      by (intro "1.IH"[OF True refl refl refl refl refl refl]) simp_all
    with True show ?thesis by (subst placeCheckpoints.simps) (simp add: Let_def)
  next
    case False
    with "1.prems"(1,2) have "(length pts + 2) div 3 = cnt" by simp
    with False "1.prems"(3) show ?thesis by (subst placeCheckpoints.simps) simp
  qed
qed

lemma placeCheckpoints_count:
  "i = 3 * cnt \<Longrightarrow> 3 * cnt < length pts + 3 \<Longrightarrow> checkpointCount b = Some cnt \<Longrightarrow>
   checkpointCount (placeCheckpoints lib pts i cnt b) = Some ((length pts + 2) div 3)"
proof (induction lib pts i cnt b rule: placeCheckpoints.induct)
  case (1 lib pts i cnt b)
  show ?case
  proof (cases "i < length pts")
    case True
    let ?t = "real i / real (length pts)"
    let ?pos0 = "getPointAt lib pts ?t"
    let ?b1 = "createCheckpoint (?pos0\<lparr>vy := vy ?pos0 + 0.1\<rparr>)
                 (normalize (getTangentAt lib pts ?t))
                 cnt (i = 0) (b\<lparr>checkpointCount := Some (cnt + 1)\<rparr>)"
    have "checkpointCount (placeCheckpoints lib pts (i + 3) (cnt + 1) ?b1)
            = Some ((length pts + 2) div 3)"
      using True "1.prems"(1)
      by (intro "1.IH"[OF True refl refl refl refl refl refl])
         (simp_all add: createCheckpoint_count)
    with True show ?thesis by (subst placeCheckpoints.simps) (simp add: Let_def)
  next
    case False
    with "1.prems"(1,2) have "(length pts + 2) div 3 = cnt" by simp
    with False "1.prems"(3) show ?thesis by (subst placeCheckpoints.simps) simp
  qed
qed

lemma build_checkpoints:
  assumes "points td = Some pts" and "2 \<le> length pts"
  shows "map (\<lambda>z. (zoneIndex z, zoneIsFinish z))
           (checkpoints (collisionSys (snd (build lib (Some td) b))))
         = map (\<lambda>k. (k, k = 0)) [0..<(length pts + 2) div 3]"
  using assms
  by (simp add: build_def Let_def placeCheckpoints_zones clear_def clear_collision_def
        addTrackMesh_def)

lemma build_checkpointCount:
  assumes "points td = Some pts" and "2 \<le> length pts"
  shows "\<exists>info. fst (build lib (Some td) b) = Inr (Some info)
                \<and> infoCheckpointCount info = (length pts + 2) div 3"
  using assms
  by (simp add: build_def Let_def placeCheckpoints_count)

lemma checkCheckpointIn_build:
  assumes p: "points td = Some pts" and l: "2 \<le> length pts"
      and h: "checkCheckpointIn (collisionSys (snd (build lib (Some td) b))) pos = Some hit"
  shows "(cpIsFinish hit \<longleftrightarrow> cpIndex hit = 0) \<and> cpIndex hit < (length pts + 2) div 3"
proof -
  let ?zs = "checkpoints (collisionSys (snd (build lib (Some td) b)))"
  from h obtain z where f: "find (\<lambda>cp. containsPoint (zoneBounds cp) pos) ?zs = Some z"
    and e: "hit = \<lparr>cpIndex = zoneIndex z, cpIsFinish = zoneIsFinish z\<rparr>"
    by (auto simp: checkCheckpointIn_def split: option.splits)
  from f have z: "z \<in> set ?zs"
    by (auto simp: find_Some_iff)
  then have "(zoneIndex z, zoneIsFinish z) \<in> set (map (\<lambda>z. (zoneIndex z, zoneIsFinish z)) ?zs)"
    by force
  then have "(zoneIndex z, zoneIsFinish z)
               \<in> set (map (\<lambda>k. (k, k = 0)) [0..<(length pts + 2) div 3])"
    by (simp only: build_checkpoints[OF p l])
  then show ?thesis by (auto simp: e)
qed

section \<open>Game: checkpoints and finish\<close>

lemmas game_ops =
  update_game_def raceTick_def startRace_def resetRace_def stopCountdown_def reset_timer_def
  update_timer_def start_def stop_def recordLap_def saveBestTime_def
  handleCheckpoint_def handleFinish_def finishRace_def getTime_def reset_def
  startRace_v2_def resetRace_v2_def handleCheckpoint_v2_def

lemmas game_values =
  openRoad_def onFinishLine_def fullThrottle_def gate_def finishLine_def
  newGame_def newTimer_def newVehiclePhysics_def

lemma gate_fields: "cpIndex (gate n) = n" "\<not> cpIsFinish (gate n)"
  by (simp_all add: gate_def)

text \<open>The two example races are where their descriptions say.\<close>

lemma lapOneGame_fields:
  "state lapOneGame = Playing" "currentCheckpoint lapOneGame = 4"
  "totalCheckpoints lapOneGame = 4" "currentLap (timer lapOneGame) = 1"
  "totalLaps (timer lapOneGame) = 2" "isRunning (timer lapOneGame)"
  "\<not> waitingForStart lapOneGame" "lapTimes (timer lapOneGame) = []"
  by (simp_all add: lapOneGame_def game_ops game_values Let_def)

lemma allPassed_v2_fields:
  "state allPassed_v2 = Playing" "currentCheckpoint allPassed_v2 = 3"
  "totalCheckpoints allPassed_v2 = 3" "isRunning (timer allPassed_v2)"
  by (simp_all add: allPassed_v2_def game_ops game_values Let_def)

text \<open>
  C2, as stated, fails in two places. The earlier version of \<open>handleCheckpoint\<close>
  compares the index with the cursor itself: with three checkpoints passed and the
  cursor at 3, a hit of checkpoint 0, the cursor modulo the count, is ignored. And an
  accepted hit of a finish-flagged checkpoint does not leave the cursor one higher:
  in the example race of the current version the cursor goes from 4 to 0.
\<close>

theorem handleCheckpoint_counterexample:
  "state allPassed_v2 = Playing
   \<and> currentCheckpoint allPassed_v2 mod totalCheckpoints allPassed_v2 = cpIndex (gate 0)
   \<and> handleCheckpoint_v2 1200 (gate 0) allPassed_v2 = allPassed_v2
   \<and> state lapOneGame = Playing
   \<and> currentCheckpoint lapOneGame mod totalCheckpoints lapOneGame = cpIndex finishLine
   \<and> currentCheckpoint lapOneGame = 4
   \<and> currentCheckpoint (handleCheckpoint 1200 finishLine lapOneGame) = 0"
proof -
  have a: "handleCheckpoint_v2 1200 (gate 0) allPassed_v2 = allPassed_v2"
    by (simp add: handleCheckpoint_v2_def allPassed_v2_fields gate_def)
  have b: "currentCheckpoint (handleCheckpoint 1200 finishLine lapOneGame) = 0"
    by (simp add: handleCheckpoint_def handleFinish_def recordLap_def lapOneGame_fields
          finishLine_def Let_def)
  from a b show ?thesis
    by (simp add: allPassed_v2_fields lapOneGame_fields gate_def finishLine_def)
qed

text \<open>
  C2, amended. In the current version, on a track with at least one checkpoint, a hit
  is accepted if and only if its index is the cursor modulo the checkpoint count; in
  the earlier version, if and only if its index is the cursor itself, which is the
  same index whenever the cursor is below the count. A hit that is not accepted
  leaves the whole game (cursor, cached pose, laps, timer, race state) unchanged and
  raises nothing. An accepted hit caches the pose and heading, raises the cursor by
  one and calls \<open>onCheckpoint\<close> when it is set, touching neither timer nor race
  state; when the checkpoint is finish-flagged, the finish handling then runs on
  that state.
\<close>

theorem handleCheckpoint_expected_index:
  "(0 < totalCheckpoints g \<longrightarrow>
      (cpIndex cp \<noteq> currentCheckpoint g mod totalCheckpoints g \<longrightarrow> handleCheckpoint now cp g = g)
    \<and> (cpIndex cp = currentCheckpoint g mod totalCheckpoints g \<and> \<not> cpIsFinish cp \<longrightarrow>
          handleCheckpoint now cp g = advance cp g)
    \<and> (cpIndex cp = currentCheckpoint g mod totalCheckpoints g \<and> cpIsFinish cp \<longrightarrow>
          handleCheckpoint now cp g = handleFinish now (advance cp g)))
   \<and> (cpIndex cp \<noteq> currentCheckpoint g \<longrightarrow> handleCheckpoint_v2 now cp g = g)
   \<and> (cpIndex cp = currentCheckpoint g \<and> \<not> cpIsFinish cp \<longrightarrow>
         handleCheckpoint_v2 now cp g = advance cp g)
   \<and> (cpIndex cp = currentCheckpoint g \<and> cpIsFinish cp \<longrightarrow>
         handleCheckpoint_v2 now cp g = handleFinish now (advance cp g))
   \<and> (currentCheckpoint g < totalCheckpoints g \<longrightarrow>
         currentCheckpoint g mod totalCheckpoints g = currentCheckpoint g)
   \<and> currentCheckpoint (advance cp g) = currentCheckpoint g + 1
   \<and> lastCheckpointPosition (advance cp g) = Some (position (physics g))
   \<and> lastCheckpointRotation (advance cp g) = ey (rotation (physics g))
   \<and> (onCheckpoint g \<longrightarrow>
         calls (advance cp g) = calls g @ [OnCheckpoint (cpIndex cp) (cpIsFinish cp)])
   \<and> timer (advance cp g) = timer g \<and> state (advance cp g) = state g"
  by (simp add: handleCheckpoint_def handleCheckpoint_v2_def advance_def Let_def)

text \<open>
  The scenario of the specification: with the cursor at 1, hitting checkpoint 2
  before checkpoint 1 is ignored; hitting checkpoint 1 and then checkpoint 2 advances
  the cursor twice, and the observer hears of both.
\<close>

theorem handleCheckpoint_expected_index_witness:
  "0 < totalCheckpoints (newGame\<lparr>state := Playing, totalCheckpoints := 4, onCheckpoint := True\<rparr>)
   \<and> currentCheckpoint (newGame\<lparr>state := Playing, totalCheckpoints := 4, onCheckpoint := True\<rparr>) = 1
   \<and> handleCheckpoint 0 (gate 2)
         (newGame\<lparr>state := Playing, totalCheckpoints := 4, onCheckpoint := True\<rparr>)
       = newGame\<lparr>state := Playing, totalCheckpoints := 4, onCheckpoint := True\<rparr>
   \<and> currentCheckpoint (handleCheckpoint 0 (gate 1)
         (newGame\<lparr>state := Playing, totalCheckpoints := 4, onCheckpoint := True\<rparr>)) = 2
   \<and> currentCheckpoint (handleCheckpoint 0 (gate 2) (handleCheckpoint 0 (gate 1)
         (newGame\<lparr>state := Playing, totalCheckpoints := 4, onCheckpoint := True\<rparr>))) = 3
   \<and> calls (handleCheckpoint 0 (gate 2) (handleCheckpoint 0 (gate 1)
         (newGame\<lparr>state := Playing, totalCheckpoints := 4, onCheckpoint := True\<rparr>)))
       = [OnCheckpoint 1 False, OnCheckpoint 2 False]"
proof -
  define g0 where "g0 = newGame\<lparr>state := Playing, totalCheckpoints := 4, onCheckpoint := True\<rparr>"
  define h1 where "h1 = gate 1"
  define h2 where "h2 = gate 2"
  define g1 where "g1 = advance h1 g0"
  have h: "cpIndex h1 = 1" "\<not> cpIsFinish h1" "cpIndex h2 = 2" "\<not> cpIsFinish h2"
    by (simp_all add: h1_def h2_def gate_fields)
  have g: "totalCheckpoints g0 = 4" "currentCheckpoint g0 = 1" "onCheckpoint g0" "calls g0 = []"
    by (simp_all add: g0_def newGame_def)
  have skip: "handleCheckpoint 0 h2 g0 = g0"
    using handleCheckpoint_expected_index[of g0 h2 0] by (simp add: g h)
  have one: "handleCheckpoint 0 h1 g0 = g1"
    using handleCheckpoint_expected_index[of g0 h1 0] by (simp add: g h g1_def)
  have a1: "totalCheckpoints g1 = 4" "currentCheckpoint g1 = 2" "onCheckpoint g1"
    "calls g1 = [OnCheckpoint 1 False]"
    by (simp_all add: g1_def advance_def g h)
  have two: "handleCheckpoint 0 h2 g1 = advance h2 g1"
    using handleCheckpoint_expected_index[of g1 h2 0] by (simp add: a1 h)
  have a2: "currentCheckpoint (advance h2 g1) = 3"
    "calls (advance h2 g1) = [OnCheckpoint 1 False, OnCheckpoint 2 False]"
    by (simp_all add: advance_def a1 h)
  have "0 < totalCheckpoints g0 \<and> currentCheckpoint g0 = 1
        \<and> handleCheckpoint 0 h2 g0 = g0
        \<and> currentCheckpoint (handleCheckpoint 0 h1 g0) = 2
        \<and> currentCheckpoint (handleCheckpoint 0 h2 (handleCheckpoint 0 h1 g0)) = 3
        \<and> calls (handleCheckpoint 0 h2 (handleCheckpoint 0 h1 g0))
            = [OnCheckpoint 1 False, OnCheckpoint 2 False]"
    unfolding skip one two by (simp add: g a1 a2)
  then show ?thesis
    unfolding g0_def h1_def h2_def .
qed

text \<open>What \<open>handleFinish\<close> does on the last lap and on an earlier lap.\<close>

lemma handleFinish_final_lap:
  assumes "currentLap (timer g) \<ge> totalLaps (timer g)"
  shows "handleFinish now g = finishRace now g"
    and "state (handleFinish now g) = Finished"
    and "\<not> isRunning (timer (handleFinish now g))"
    and "ghostCar g = Some gc \<Longrightarrow>
           \<exists>gc'. ghostCar (handleFinish now g) = Some gc' \<and> \<not> isRecording gc' \<and> \<not> isPlaying gc'"
  using assms
  by (auto simp: handleFinish_def finishRace_def stop_def saveBestTime_def Let_def
        stopRecording_def stopPlayback_def split: prod.splits option.splits if_splits)

lemma handleFinish_earlier_lap:
  assumes "currentLap (timer g) < totalLaps (timer g)" and "isRunning (timer g)"
  shows "handleFinish now g
         = g\<lparr>timer := (timer g)\<lparr>lapTimes := lapTimes (timer g) @ [now - lapStartTime (timer g)],
                               lapStartTime := now,
                               currentLap := currentLap (timer g) + 1\<rparr>,
              currentCheckpoint := 0\<rparr>"
  using assms by (simp add: handleFinish_def recordLap_def Let_def)

text \<open>
  The race clock runs in every game that can arise and is under way, so the finish
  line crossed on an earlier lap always finds it running: the lap is recorded and
  the lap counter incremented.
\<close>

lemma finishRace_state: "state (finishRace now g) = Finished"
  by (simp add: finishRace_def stop_def saveBestTime_def Let_def split: prod.splits option.splits)

lemma handleFinish_clockRuns: "clockRuns g \<Longrightarrow> clockRuns (handleFinish now g)"
  by (simp add: handleFinish_def clockRuns_def finishRace_state recordLap_def Let_def)

lemma handleCheckpoint_clockRuns:
  assumes a: "clockRuns g"
  shows "clockRuns (handleCheckpoint now cp g)"
proof -
  let ?g3 = "advance cp g"
  have b: "clockRuns ?g3" using a by (simp add: clockRuns_def advance_def)
  have c: "clockRuns (handleFinish now ?g3)" using b by (rule handleFinish_clockRuns)
  have "handleCheckpoint now cp g = g \<or> handleCheckpoint now cp g = ?g3
        \<or> handleCheckpoint now cp g = handleFinish now ?g3"
    by (simp add: handleCheckpoint_def advance_def Let_def)
  with a b c show ?thesis by auto
qed

lemma raceTick_clockRuns:
  assumes a: "clockRuns g"
  shows "clockRuns (raceTick m handleCheckpoint slerp col now1 now2 g)"
proof -
  define g1 where "g1 = g\<lparr>timer := update_timer now1 (timer g)\<rparr>"
  define g2 where "g2 = (if checkBoostPad col (position (physics g1))
                then (let g' = g1\<lparr>physics := applyBoost m (physics g1)\<rparr>
                      in if onBoost g' then g'\<lparr>calls := calls g' @ [OnBoost]\<rparr> else g')
                else g1)"
  define g3 where "g3 = (case checkCheckpoint col (position (physics g2)) of
                  Some checkpoint \<Rightarrow> handleCheckpoint now2 checkpoint g2
                | None \<Rightarrow> g2)"
  define g4 where "g4 = (case ghostCar g3 of
                  None \<Rightarrow> g3
                | Some gc \<Rightarrow>
                    if isRecording gc
                    then (let (gc1, h1) = recordFrame (position (physics g3)) (quaternion (physics g3))
                                            (getTime (timer g3)) gc (arrays g3)
                          in g3\<lparr>ghostCar := Some gc1, arrays := h1\<rparr>)
                    else g3)"
  define g5 where "g5 = (case ghostCar g4 of
                  None \<Rightarrow> g4
                | Some gc \<Rightarrow>
                    if isPlaying gc
                    then g4\<lparr>ghostCar := Some (update_ghost slerp (getTime (timer g4)) gc (arrays g4))\<rparr>
                    else g4)"
  have 1: "clockRuns g1" using a by (simp add: clockRuns_def g1_def update_timer_def)
  have 2: "clockRuns g2" using 1 by (simp add: clockRuns_def g2_def Let_def)
  have 3: "clockRuns g3" using 2 by (simp add: g3_def handleCheckpoint_clockRuns split: option.splits)
  have 4: "clockRuns g4" using 3
    by (simp add: clockRuns_def g4_def split: option.splits prod.splits)
  have 5: "clockRuns g5" using 4
    by (simp add: clockRuns_def g5_def split: option.splits)
  have e: "raceTick m handleCheckpoint slerp col now1 now2 g =
        (case checkBarrierCollision col (boundingBox (physics g5)) of
           Some (normal, penetration) \<Rightarrow>
             g5\<lparr>physics := applyCollision normal penetration (physics g5)\<rparr>
         | None \<Rightarrow> g5)"
    by (simp only: raceTick_def g5_def g4_def g3_def g2_def g1_def Let_def)
  show ?thesis unfolding e using 5
    by (simp add: clockRuns_def split: option.splits prod.splits)
qed

lemma update_game_clockRuns:
  assumes a: "clockRuns g"
  shows "clockRuns (update_game slerp col now0 now1 now2 inp g)"
proof -
  define g2 where "g2 = (let g1 = g\<lparr>waitingForStart := False, timer := start now0 (timer g)\<rparr>
           in case ghostCar g1 of
                        None \<Rightarrow> g1
                      | Some gc \<Rightarrow>
                          (let (gc1, h1) = startRecording gc (arrays g1);
                               gc2 = (case currentGhostData g1 of
                                        None \<Rightarrow> gc1
                                      | Some d \<Rightarrow> startPlayback (Some d) gc1 h1)
                           in g1\<lparr>ghostCar := Some gc2, arrays := h1\<rparr>))"
  have b: "clockRuns g2"
    by (simp add: g2_def clockRuns_def start_def Let_def split: option.splits prod.splits)
  have e: "update_game slerp col now0 now1 now2 inp g =
     (if state g \<noteq> Playing then g
      else if waitingForStart g then
        (if throttle inp > 0 \<or> brake inp > 0 \<or> steer inp \<noteq> 0
         then raceTick 1.2 handleCheckpoint slerp col now1 now2 g2
         else g)
      else raceTick 1.2 handleCheckpoint slerp col now1 now2 g)"
    by (simp only: update_game_def g2_def Let_def)
  show ?thesis unfolding e using a raceTick_clockRuns[OF b] raceTick_clockRuns[OF a]
    by (simp split: if_splits)
qed

lemma resetRace_clockRuns: "clockRuns (resetRace g)"
  by (simp add: clockRuns_def resetRace_def Let_def)

lemma loadTrack_clockRuns:
  assumes "clockRuns g" and "loadTrack lib trackData trackId g b = (res, g', b')"
  shows "clockRuns g'"
proof -
  obtain r b1 where bld: "build lib trackData b = (r, b1)" by (cases "build lib trackData b")
  have "clockRuns (g\<lparr>currentTrackId := trackId, currentTrackLaps := l\<rparr>)" for l
    using assms(1) by (simp add: clockRuns_def)
  with assms(2) show ?thesis
    unfolding loadTrack_def bld
    by (auto simp: Let_def resetRace_clockRuns split: sum.splits option.splits prod.splits)
qed

lemma reachable_clockRuns: "reachable g \<Longrightarrow> clockRuns g"
proof (induction rule: reachable.induct)
  case (menu g) then show ?case by (simp add: clockRuns_def)
next
  case (load g lib trackData trackId b res g' b') then show ?case
    using loadTrack_clockRuns by blast
next
  case (reset g) show ?case by (rule resetRace_clockRuns)
next
  case (countdown g) show ?case by (simp add: clockRuns_def startCountdown_def stopCountdown_def)
next
  case (count g c c' g') then show ?case
    by (auto simp: clockRuns_def countdownTick_def startRace_def stopCountdown_def Let_def
          split: if_splits)
next
  case (start g) show ?case by (simp add: clockRuns_def startRace_def)
next
  case (tick g slerp col now0 now1 now2 inp) then show ?case by (simp add: update_game_clockRuns)
next
  case (toCheckpoint g g') then show ?case
    by (auto simp: clockRuns_def resetToCheckpoint_def split: if_splits option.splits)
next
  case (pause g) then show ?case by (auto simp add: clockRuns_def pause_def)
next
  case (resume g) then show ?case by (auto simp add: clockRuns_def resume_def)
qed

lemma handleFinish_earlier_lap_under_way:
  assumes "reachable g" and "state g = Playing" and "\<not> waitingForStart g"
    and "currentLap (timer g) < totalLaps (timer g)"
  shows "handleFinish now g
         = g\<lparr>timer := (timer g)\<lparr>lapTimes := lapTimes (timer g) @ [now - lapStartTime (timer g)],
                               lapStartTime := now,
                               currentLap := currentLap (timer g) + 1\<rparr>,
              currentCheckpoint := 0\<rparr>"
proof -
  have "isRunning (timer g)"
    using reachable_clockRuns[OF assms(1)] assms(2,3) by (simp add: clockRuns_def)
  with assms(4) show ?thesis by (rule handleFinish_earlier_lap)
qed

text \<open>
  C3 at a concrete input of the current version: the example race is in lap 1 of 2
  and the car reaches the finish line (checkpoint 0). The update records the lap,
  the lap counter becomes 2 and the race stays in the playing state, but the cursor
  is set to 0, the finish line itself, where \<open>resetRace\<close> starts a lap at checkpoint
  1. On the next update the car is still inside the finish-line zone: the hit is
  accepted again and the race is finished with one lap recorded.
\<close>

theorem handleFinish_restarts_at_start_line:
  "state lapOneGame = Playing \<and> currentCheckpoint lapOneGame = 4
   \<and> currentLap (timer lapOneGame) = 1 \<and> totalLaps (timer lapOneGame) = 2
   \<and> currentCheckpoint (resetRace lapOneGame) = 1
   \<and> currentCheckpoint (update_game (\<lambda>a b k. a) onFinishLine 0 1200 1200 fullThrottle lapOneGame) = 0
   \<and> currentLap (timer (update_game (\<lambda>a b k. a) onFinishLine 0 1200 1200 fullThrottle lapOneGame)) = 2
   \<and> state (update_game (\<lambda>a b k. a) onFinishLine 0 1200 1200 fullThrottle lapOneGame) = Playing
   \<and> state (update_game (\<lambda>a b k. a) onFinishLine 0 1216 1216 fullThrottle
              (update_game (\<lambda>a b k. a) onFinishLine 0 1200 1200 fullThrottle lapOneGame))
       = Finished
   \<and> lapTimes (timer (update_game (\<lambda>a b k. a) onFinishLine 0 1216 1216 fullThrottle
              (update_game (\<lambda>a b k. a) onFinishLine 0 1200 1200 fullThrottle lapOneGame)))
       = [1200]"
  by (simp add: lapOneGame_def game_ops game_values Let_def)

section \<open>GhostCar: recording and playback\<close>

lemmas ghost_ops =
  newGhostCar_def startRecording_def stopRecording_def recordFrame_def startPlayback_def
  stopPlayback_def newArray_def push_def emptyStore_def frameAt_def

text \<open>
  A recording that \<open>startRecording\<close> has begun stays in timestamp order under
  \<open>recordFrame\<close>, which appends a frame only when it is at least \<open>recordInterval\<close>
  later than the last one. \<open>recordFrame\<close> changes no frame that is already in an
  array. \<open>startPlayback(data)\<close> makes the array it is given the array that is
  recorded into.
\<close>

lemma startRecording_ordered:
  "0 < recordInterval gc \<Longrightarrow>
   orderedRecording (fst (startRecording gc h)) (snd (startRecording gc h))"
  by (simp add: orderedRecording_def startRecording_def newArray_def split_beta)

lemma recordFrame_ordered:
  assumes "orderedRecording gc h"
  shows "orderedRecording (fst (recordFrame pos q t gc h)) (snd (recordFrame pos q t gc h))"
proof (cases "isRecording gc \<and> \<not> t - lastRecordTime gc < recordInterval gc")
  case False
  with assms show ?thesis by (auto simp: recordFrame_def)
next
  case True
  from assms have s: "sorted_wrt (<) (map frameTime (playedFrames gc h))"
    and b: "\<forall>f \<in> set (playedFrames gc h). frameTime f \<le> lastRecordTime gc"
    and p: "0 < recordInterval gc"
    by (simp_all add: orderedRecording_def)
  from True p have later: "lastRecordTime gc < t" by simp
  with b have "\<forall>f \<in> set (playedFrames gc h). frameTime f < t" by fastforce
  with s b later p True show ?thesis
    by (auto simp: orderedRecording_def recordFrame_def push_def sorted_wrt_append)
qed

lemma recordFrame_appends:
  "\<exists>fs. arrayOf (snd (recordFrame pos q t gc h)) a = arrayOf h a @ fs"
  by (simp add: recordFrame_def push_def)

lemma startPlayback_shares_array:
  "recordedData (startPlayback (Some d) gc h) = d"
  by (simp add: startPlayback_def Let_def)


text \<open>
  In a race of the current version no frame that is in an array is ever changed or
  removed: an update only appends, so frames that are in timestamp order stay so
  whatever is recorded after them.
\<close>

lemma recordFrame_nextArray: "nextArray (snd (recordFrame pos q t gc h)) = nextArray h"
  by (simp add: recordFrame_def push_def)

lemma startRecording_keeps:
  "a < nextArray h \<Longrightarrow> arrayOf (snd (startRecording gc h)) a = arrayOf h a"
  "nextArray h \<le> nextArray (snd (startRecording gc h))"
  by (simp_all add: startRecording_def newArray_def split_beta)

lemma finishRace_arrays: "arrays (finishRace now g) = arrays g"
  by (simp add: finishRace_def stop_def saveBestTime_def Let_def split: prod.splits option.splits)

lemma handleFinish_arrays: "arrays (handleFinish now g) = arrays g"
  by (simp add: handleFinish_def finishRace_arrays)

lemma handleCheckpoint_arrays: "arrays (handleCheckpoint now cp g) = arrays g"
  by (simp add: handleCheckpoint_def handleFinish_arrays Let_def)

lemma raceTick_keeps_frames:
  "\<exists>fs. arrayOf (arrays (raceTick m handleCheckpoint slerp col now1 now2 g)) a
          = arrayOf (arrays g) a @ fs"
  "nextArray (arrays (raceTick m handleCheckpoint slerp col now1 now2 g)) = nextArray (arrays g)"
proof -
  define g1 where "g1 = g\<lparr>timer := update_timer now1 (timer g)\<rparr>"
  define g2 where "g2 = (if checkBoostPad col (position (physics g1))
                then (let g' = g1\<lparr>physics := applyBoost m (physics g1)\<rparr>
                      in if onBoost g' then g'\<lparr>calls := calls g' @ [OnBoost]\<rparr> else g')
                else g1)"
  define g3 where "g3 = (case checkCheckpoint col (position (physics g2)) of
                  Some checkpoint \<Rightarrow> handleCheckpoint now2 checkpoint g2
                | None \<Rightarrow> g2)"
  define g4 where "g4 = (case ghostCar g3 of
                  None \<Rightarrow> g3
                | Some gc \<Rightarrow>
                    if isRecording gc
                    then (let (gc1, h1) = recordFrame (position (physics g3)) (quaternion (physics g3))
                                            (getTime (timer g3)) gc (arrays g3)
                          in g3\<lparr>ghostCar := Some gc1, arrays := h1\<rparr>)
                    else g3)"
  define g5 where "g5 = (case ghostCar g4 of
                  None \<Rightarrow> g4
                | Some gc \<Rightarrow>
                    if isPlaying gc
                    then g4\<lparr>ghostCar := Some (update_ghost slerp (getTime (timer g4)) gc (arrays g4))\<rparr>
                    else g4)"
  have 1: "arrays g1 = arrays g" by (simp add: g1_def)
  have 2: "arrays g2 = arrays g" by (simp add: g2_def 1 Let_def)
  have 3: "arrays g3 = arrays g" by (simp add: g3_def 2 handleCheckpoint_arrays split: option.splits)
  have 4: "\<exists>fs. arrayOf (arrays g4) a = arrayOf (arrays g) a @ fs"
    "nextArray (arrays g4) = nextArray (arrays g)"
    using recordFrame_appends[of _ _ _ _ "arrays g" a] recordFrame_nextArray[of _ _ _ _ "arrays g"]
    by (auto simp: g4_def 3 split_beta split: option.splits)
  have 5: "arrays g5 = arrays g4" by (simp add: g5_def split: option.splits)
  have e: "raceTick m handleCheckpoint slerp col now1 now2 g =
        (case checkBarrierCollision col (boundingBox (physics g5)) of
           Some (normal, penetration) \<Rightarrow>
             g5\<lparr>physics := applyCollision normal penetration (physics g5)\<rparr>
         | None \<Rightarrow> g5)"
    by (simp only: raceTick_def g5_def g4_def g3_def g2_def g1_def Let_def)
  have 6: "arrays (raceTick m handleCheckpoint slerp col now1 now2 g) = arrays g5"
    unfolding e by (simp split: option.splits prod.splits)
  show "\<exists>fs. arrayOf (arrays (raceTick m handleCheckpoint slerp col now1 now2 g)) a
          = arrayOf (arrays g) a @ fs"
    unfolding 6 5 by (rule 4)
  show "nextArray (arrays (raceTick m handleCheckpoint slerp col now1 now2 g)) = nextArray (arrays g)"
    unfolding 6 5 by (rule 4)
qed

lemma update_game_keeps_frames:
  assumes "a < nextArray (arrays g)"
  shows "\<exists>fs. arrayOf (arrays (update_game slerp col now0 now1 now2 inp g)) a
              = arrayOf (arrays g) a @ fs"
proof -
  define g2 where "g2 = (let g1 = g\<lparr>waitingForStart := False, timer := start now0 (timer g)\<rparr>
           in case ghostCar g1 of
                        None \<Rightarrow> g1
                      | Some gc \<Rightarrow>
                          (let (gc1, h1) = startRecording gc (arrays g1);
                               gc2 = (case currentGhostData g1 of
                                        None \<Rightarrow> gc1
                                      | Some d \<Rightarrow> startPlayback (Some d) gc1 h1)
                           in g1\<lparr>ghostCar := Some gc2, arrays := h1\<rparr>))"
  have b: "arrayOf (arrays g2) a = arrayOf (arrays g) a"
    using assms startRecording_keeps(1)[of a "arrays g"]
    by (auto simp: g2_def Let_def split_beta split: option.splits)
  have e: "update_game slerp col now0 now1 now2 inp g =
     (if state g \<noteq> Playing then g
      else if waitingForStart g then
        (if throttle inp > 0 \<or> brake inp > 0 \<or> steer inp \<noteq> 0
         then raceTick 1.2 handleCheckpoint slerp col now1 now2 g2
         else g)
      else raceTick 1.2 handleCheckpoint slerp col now1 now2 g)"
    by (simp only: update_game_def g2_def Let_def)
  show ?thesis
    unfolding e
    using raceTick_keeps_frames(1)[of "1.2" slerp col now1 now2 g2 a]
          raceTick_keeps_frames(1)[of "1.2" slerp col now1 now2 g a] b
    by (auto split: if_splits)
qed



lemma ghostRace_fields:
  "state ghostRace = Playing" "waitingForStart ghostRace"
  "currentGhostData ghostRace = Some 1"
  "arrayOf (arrays ghostRace) 1 = bestGhost"
  "nextArray (arrays ghostRace) = 2"
  "map_option recordedData (ghostCar ghostRace) = Some 0"
  "position (physics ghostRace) = vec 0 2.5 0"
  by (simp_all add: ghostRace_def onPlay_def loadTrack_main_def loadTrack_def build_def
        placeCheckpoints.simps createCheckpoint_def addCheckpoint_def addTrackMesh_def
        clear_def clear_collision_def newSplineTrackBuilder_def polylineLib_def
        checkBestTime_def loadGhost_def ghost_ops
        countdownTick_def startCountdown_def stopCountdown_def startRace_def resetRace_def
        reset_def reset_timer_def newGame_def newTimer_def newVehiclePhysics_def
        Let_def split_beta vec_def)











section \<open>Track builders: degenerate input\<close>

text \<open>
  The piece builder reads every field of a piece through a default, and a piece
  whose type is missing falls through the \<open>switch\<close>; with a \<open>pieces\<close> field,
  \<open>build\<close> always returns.
\<close>

lemma buildPiece_defaults:
  "buildPiece (p\<lparr>pieceLength := None\<rparr>) pos dir h i tb
     = buildPiece (p\<lparr>pieceLength := Some 20\<rparr>) pos dir h i tb"
  "buildPiece (p\<lparr>pieceWidth := None\<rparr>) pos dir h i tb
     = buildPiece (p\<lparr>pieceWidth := Some 14\<rparr>) pos dir h i tb"
  "buildPiece (p\<lparr>pieceAngle := None\<rparr>) pos dir h i tb
     = buildPiece (p\<lparr>pieceAngle := Some 0\<rparr>) pos dir h i tb"
  "buildPiece (p\<lparr>pieceHeightChange := None\<rparr>) pos dir h i tb
     = buildPiece (p\<lparr>pieceHeightChange := Some 0\<rparr>) pos dir h i tb"
  "buildPiece (p\<lparr>pieceRadius := None\<rparr>) pos dir h i tb
     = buildPiece (p\<lparr>pieceRadius := Some (if pieceType p = Some ''loop'' then 10 else 30)\<rparr>)
         pos dir h i tb"
  "buildPiece (p\<lparr>pieceJumpHeight := None\<rparr>) pos dir h i tb
     = buildPiece (p\<lparr>pieceJumpHeight := Some 3\<rparr>) pos dir h i tb"
  "buildPiece (p\<lparr>pieceIsFinish := None\<rparr>) pos dir h i tb
     = buildPiece (p\<lparr>pieceIsFinish := Some False\<rparr>) pos dir h i tb"
  by (simp_all add: buildPiece_def orDefault_def Let_def cong: if_cong)

lemma buildPiece_no_type:
  "pieceType p = None \<Longrightarrow> buildPiece p pos dir h i tb = ((pos, dir, h), tb)"
  by (simp add: buildPiece_def)

lemma build_tb_returns:
  "\<exists>info. fst (build_tb (Some \<lparr>pieces = Some ps, decorations = ds\<rparr>) tb) = Inr info"
  by (simp add: build_tb_def Let_def)

text \<open>
  The spline builder returns \<open>undefined\<close> for fewer than two points. \<open>Game.loadTrack\<close>
  has stored the id and the data of the track by then and throws when it reads the
  result; main.js catches that, and \<open>onPlay\<close> resets the race and runs the
  countdown all the same.
\<close>

lemma degenerate_build:
  assumes "length (case points td of None \<Rightarrow> [] | Some ps \<Rightarrow> ps) < 2"
  shows "build lib (Some td) b = (Inr None, clear b)"
  using assms by (simp add: build_def Let_def)

lemma degenerate_loadTrack:
  assumes "length (case points td of None \<Rightarrow> [] | Some ps \<Rightarrow> ps) < 2"
  shows "loadTrack lib (Some td) trackId g b
         = (Inl TypeError, g\<lparr>currentTrackId := trackId, currentTrackLaps := laps td\<rparr>, clear b)"
  using assms by (simp add: loadTrack_def degenerate_build Let_def)

lemma degenerate_onPlay:
  assumes "length (case points td of None \<Rightarrow> [] | Some ps \<Rightarrow> ps) < 2"
  shows "onPlay lib (Some td) trackId g b
         = (startRace (stopCountdown (startCountdown (resetRace
              (g\<lparr>currentTrackId := trackId, currentTrackLaps := laps td\<rparr>)))), clear b)"
  by (simp add: onPlay_def loadTrack_main_def degenerate_loadTrack[OF assms] countdownTick_def Let_def)

lemmas play_ops =
  startRace_def stopCountdown_def startCountdown_def resetRace_def reset_timer_def reset_def


text \<open>
  C9, as stated, fails. For a track with one point, and for a track with no
  \<open>points\<close> field, \<open>SplineTrackBuilder.build\<close> returns \<open>undefined\<close> and raises
  nothing; \<open>onPlay\<close> with the one-point track leaves the game in the playing state
  on that track, with its three laps. For a ramp piece with nothing but its type,
  \<open>TrackBuilder.build\<close> returns the track summary and has registered a collision
  mesh of the default width and length.
\<close>

theorem build_degenerate_counterexample:
  "fst (build polylineLib (Some onePointTrack) newSplineTrackBuilder) = Inr None
   \<and> fst (build polylineLib (Some \<lparr>points = None, laps = None\<rparr>) newSplineTrackBuilder)
     = Inr None
   \<and> state (fst (onPlay polylineLib (Some onePointTrack) ''track2'' newGame newSplineTrackBuilder))
     = Playing
   \<and> currentTrackId (fst (onPlay polylineLib (Some onePointTrack) ''track2'' newGame
                          newSplineTrackBuilder)) = ''track2''
   \<and> totalLaps (timer (fst (onPlay polylineLib (Some onePointTrack) ''track2'' newGame
                             newSplineTrackBuilder))) = 3
   \<and> fst (build_tb (Some \<lparr>pieces = Some [bareRamp], decorations = None\<rparr>) newTrackBuilder)
     = Inr \<lparr>infoSpawnPosition = vec 0 0.5 5, infoSpawnRotation = pi, infoCheckpointCount = 0\<rparr>
   \<and> trackMeshes (tbCollision (snd (build_tb (Some \<lparr>pieces = Some [bareRamp], decorations = None\<rparr>)
                                       newTrackBuilder)))
     = [Mesh (PlaneGeometry 14 20) RoadMaterial (vec 0 0.01 10) \<lparr>ex = - pi / 2, ey = 0, ez = 0\<rparr>]"
proof -
  have d: "length (case points onePointTrack of None \<Rightarrow> [] | Some ps \<Rightarrow> ps) < 2"
    by (simp add: onePointTrack_def)
  have a: "fst (build polylineLib (Some onePointTrack) newSplineTrackBuilder) = Inr None"
    "fst (build polylineLib (Some \<lparr>points = None, laps = None\<rparr>) newSplineTrackBuilder) = Inr None"
    by (simp_all add: build_def Let_def onePointTrack_def)
  have b: "state (fst (onPlay polylineLib (Some onePointTrack) ''track2'' newGame newSplineTrackBuilder))
     = Playing"
    "currentTrackId (fst (onPlay polylineLib (Some onePointTrack) ''track2'' newGame
                          newSplineTrackBuilder)) = ''track2''"
    "totalLaps (timer (fst (onPlay polylineLib (Some onePointTrack) ''track2'' newGame
                             newSplineTrackBuilder))) = 3"
    unfolding degenerate_onPlay[OF d]
    by (simp_all add: play_ops onePointTrack_def Let_def)
  have r: "buildRamp (vec 0 0 0) 0 20 14 0 0 b
           = (vec 0 0 20,
              (addToGroup (Mesh (PlaneGeometry 14 20) RoadMaterial (vec 0 0.01 10)
                             \<lparr>ex = - pi / 2, ey = 0, ez = 0\<rparr>) b)
                \<lparr>tbCollision := addTrackMesh (Mesh (PlaneGeometry 14 20) RoadMaterial (vec 0 0.01 10)
                                   \<lparr>ex = - pi / 2, ey = 0, ez = 0\<rparr>) (tbCollision b)\<rparr>)" for b
    by (simp add: buildRamp_def atan2_def vec_def addToGroup_def Let_def)
  have p: "buildPiece bareRamp (vec 0 0 0) 0 0 0 b
           = ((vec 0 0 20, 0, 0), snd (buildRamp (vec 0 0 0) 0 20 14 0 0 b))" for b
    by (simp add: buildPiece_def bareRamp_def orDefault_def r Let_def)
  have c: "fst (build_tb (Some \<lparr>pieces = Some [bareRamp], decorations = None\<rparr>) newTrackBuilder)
     = Inr \<lparr>infoSpawnPosition = vec 0 0.5 5, infoSpawnRotation = pi, infoCheckpointCount = 0\<rparr>"
    "trackMeshes (tbCollision (snd (build_tb (Some \<lparr>pieces = Some [bareRamp], decorations = None\<rparr>)
                                       newTrackBuilder)))
     = [Mesh (PlaneGeometry 14 20) RoadMaterial (vec 0 0.01 10) \<lparr>ex = - pi / 2, ey = 0, ez = 0\<rparr>]"
    by (simp_all add: build_tb_def p r clear_tb_def clear_collision_def addDecorations_def
          addToGroup_def addTrackMesh_def newTrackBuilder_def Let_def)
  from a b c show ?thesis by blast
qed


text \<open>
  C9, amended. For every track input with fewer than 2 points (or with no \<open>points\<close>
  field), \<open>SplineTrackBuilder.build\<close> clears the previous track and returns
  \<open>undefined\<close> without raising an error: nothing is registered in the collision
  system (no track mesh, barrier, boost pad or checkpoint) and the track group is
  empty. \<open>Game.loadTrack\<close>, which has already taken the id and the lap count of the
  track, throws a TypeError when it reads the result; \<open>loadTrack\<close> of main.js
  catches it and returns \<open>null\<close>, and \<open>onPlay\<close> goes on: the race is reset and
  started on the empty collision system, under the id and the lap count of the
  degenerate track, with the spawn point, the checkpoint count and the best time of
  the track loaded before. For a piece with missing fields, \<open>TrackBuilder\<close> raises
  no error either: a missing length, width, angle, height change, radius, jump
  height or finish flag is read as its default (20, 14, 0, 0, 30 or 10 for a loop,
  3, false), a piece with no type builds nothing, and \<open>build\<close> returns the track
  summary for every list of pieces.
\<close>

theorem build_degenerate_returns_nothing:
  "(length (case points td of None \<Rightarrow> [] | Some ps \<Rightarrow> ps) < 2 \<longrightarrow>
      build lib (Some td) b = (Inr None, clear b)
      \<and> trackMeshes (collisionSys (clear b)) = []
      \<and> barrierMeshes (collisionSys (clear b)) = []
      \<and> boostPads (collisionSys (clear b)) = []
      \<and> checkpoints (collisionSys (clear b)) = []
      \<and> trackGroup (clear b) = []
      \<and> loadTrack lib (Some td) trackId g b
          = (Inl TypeError, g\<lparr>currentTrackId := trackId, currentTrackLaps := laps td\<rparr>, clear b)
      \<and> loadTrack_main lib (Some td) trackId g b
          = (None, g\<lparr>currentTrackId := trackId, currentTrackLaps := laps td\<rparr>, clear b)
      \<and> snd (onPlay lib (Some td) trackId g b) = clear b
      \<and> state (fst (onPlay lib (Some td) trackId g b)) = Playing
      \<and> waitingForStart (fst (onPlay lib (Some td) trackId g b))
      \<and> currentTrackId (fst (onPlay lib (Some td) trackId g b)) = trackId
      \<and> totalLaps (timer (fst (onPlay lib (Some td) trackId g b)))
          = (case laps td of None \<Rightarrow> 1 | Some n \<Rightarrow> if n = 0 then 1 else n)
      \<and> spawnPosition (fst (onPlay lib (Some td) trackId g b)) = spawnPosition g
      \<and> totalCheckpoints (fst (onPlay lib (Some td) trackId g b)) = totalCheckpoints g
      \<and> bestTime (timer (fst (onPlay lib (Some td) trackId g b))) = bestTime (timer g))
   \<and> buildPiece (p\<lparr>pieceLength := None\<rparr>) pos dir h i tb
       = buildPiece (p\<lparr>pieceLength := Some 20\<rparr>) pos dir h i tb
   \<and> buildPiece (p\<lparr>pieceWidth := None\<rparr>) pos dir h i tb
       = buildPiece (p\<lparr>pieceWidth := Some 14\<rparr>) pos dir h i tb
   \<and> buildPiece (p\<lparr>pieceAngle := None\<rparr>) pos dir h i tb
       = buildPiece (p\<lparr>pieceAngle := Some 0\<rparr>) pos dir h i tb
   \<and> buildPiece (p\<lparr>pieceHeightChange := None\<rparr>) pos dir h i tb
       = buildPiece (p\<lparr>pieceHeightChange := Some 0\<rparr>) pos dir h i tb
   \<and> buildPiece (p\<lparr>pieceRadius := None\<rparr>) pos dir h i tb
       = buildPiece (p\<lparr>pieceRadius := Some (if pieceType p = Some ''loop'' then 10 else 30)\<rparr>)
           pos dir h i tb
   \<and> buildPiece (p\<lparr>pieceJumpHeight := None\<rparr>) pos dir h i tb
       = buildPiece (p\<lparr>pieceJumpHeight := Some 3\<rparr>) pos dir h i tb
   \<and> buildPiece (p\<lparr>pieceIsFinish := None\<rparr>) pos dir h i tb
       = buildPiece (p\<lparr>pieceIsFinish := Some False\<rparr>) pos dir h i tb
   \<and> (pieceType p = None \<longrightarrow> buildPiece p pos dir h i tb = ((pos, dir, h), tb))
   \<and> (\<exists>info. fst (build_tb (Some \<lparr>pieces = Some ps, decorations = ds\<rparr>) tb) = Inr info)"
proof -
  have spline: "length (case points td of None \<Rightarrow> [] | Some ps \<Rightarrow> ps) < 2 \<longrightarrow>
      build lib (Some td) b = (Inr None, clear b)
      \<and> trackMeshes (collisionSys (clear b)) = []
      \<and> barrierMeshes (collisionSys (clear b)) = []
      \<and> boostPads (collisionSys (clear b)) = []
      \<and> checkpoints (collisionSys (clear b)) = []
      \<and> trackGroup (clear b) = []
      \<and> loadTrack lib (Some td) trackId g b
          = (Inl TypeError, g\<lparr>currentTrackId := trackId, currentTrackLaps := laps td\<rparr>, clear b)
      \<and> loadTrack_main lib (Some td) trackId g b
          = (None, g\<lparr>currentTrackId := trackId, currentTrackLaps := laps td\<rparr>, clear b)
      \<and> snd (onPlay lib (Some td) trackId g b) = clear b
      \<and> state (fst (onPlay lib (Some td) trackId g b)) = Playing
      \<and> waitingForStart (fst (onPlay lib (Some td) trackId g b))
      \<and> currentTrackId (fst (onPlay lib (Some td) trackId g b)) = trackId
      \<and> totalLaps (timer (fst (onPlay lib (Some td) trackId g b)))
          = (case laps td of None \<Rightarrow> 1 | Some n \<Rightarrow> if n = 0 then 1 else n)
      \<and> spawnPosition (fst (onPlay lib (Some td) trackId g b)) = spawnPosition g
      \<and> totalCheckpoints (fst (onPlay lib (Some td) trackId g b)) = totalCheckpoints g
      \<and> bestTime (timer (fst (onPlay lib (Some td) trackId g b))) = bestTime (timer g)"
  proof
    assume d: "length (case points td of None \<Rightarrow> [] | Some ps \<Rightarrow> ps) < 2"
    have c: "trackMeshes (collisionSys (clear b)) = []" "barrierMeshes (collisionSys (clear b)) = []"
      "boostPads (collisionSys (clear b)) = []" "checkpoints (collisionSys (clear b)) = []"
      "trackGroup (clear b) = []"
      by (simp_all add: clear_def clear_collision_def)
    have m: "loadTrack_main lib (Some td) trackId g b
          = (None, g\<lparr>currentTrackId := trackId, currentTrackLaps := laps td\<rparr>, clear b)"
      by (simp add: loadTrack_main_def degenerate_loadTrack[OF d])
    have o: "snd (onPlay lib (Some td) trackId g b) = clear b"
      "state (fst (onPlay lib (Some td) trackId g b)) = Playing"
      "waitingForStart (fst (onPlay lib (Some td) trackId g b))"
      "currentTrackId (fst (onPlay lib (Some td) trackId g b)) = trackId"
      "totalLaps (timer (fst (onPlay lib (Some td) trackId g b)))
          = (case laps td of None \<Rightarrow> 1 | Some n \<Rightarrow> if n = 0 then 1 else n)"
      "spawnPosition (fst (onPlay lib (Some td) trackId g b)) = spawnPosition g"
      "totalCheckpoints (fst (onPlay lib (Some td) trackId g b)) = totalCheckpoints g"
      "bestTime (timer (fst (onPlay lib (Some td) trackId g b))) = bestTime (timer g)"
      unfolding degenerate_onPlay[OF d] by (simp_all add: play_ops Let_def)
    from degenerate_build[OF d] degenerate_loadTrack[OF d] c m o
    show "build lib (Some td) b = (Inr None, clear b)
      \<and> trackMeshes (collisionSys (clear b)) = []
      \<and> barrierMeshes (collisionSys (clear b)) = []
      \<and> boostPads (collisionSys (clear b)) = []
      \<and> checkpoints (collisionSys (clear b)) = []
      \<and> trackGroup (clear b) = []
      \<and> loadTrack lib (Some td) trackId g b
          = (Inl TypeError, g\<lparr>currentTrackId := trackId, currentTrackLaps := laps td\<rparr>, clear b)
      \<and> loadTrack_main lib (Some td) trackId g b
          = (None, g\<lparr>currentTrackId := trackId, currentTrackLaps := laps td\<rparr>, clear b)
      \<and> snd (onPlay lib (Some td) trackId g b) = clear b
      \<and> state (fst (onPlay lib (Some td) trackId g b)) = Playing
      \<and> waitingForStart (fst (onPlay lib (Some td) trackId g b))
      \<and> currentTrackId (fst (onPlay lib (Some td) trackId g b)) = trackId
      \<and> totalLaps (timer (fst (onPlay lib (Some td) trackId g b)))
          = (case laps td of None \<Rightarrow> 1 | Some n \<Rightarrow> if n = 0 then 1 else n)
      \<and> spawnPosition (fst (onPlay lib (Some td) trackId g b)) = spawnPosition g
      \<and> totalCheckpoints (fst (onPlay lib (Some td) trackId g b)) = totalCheckpoints g
      \<and> bestTime (timer (fst (onPlay lib (Some td) trackId g b))) = bestTime (timer g)"
      by blast
  qed
  from spline buildPiece_defaults[of p pos dir h i tb] buildPiece_no_type[of p pos dir h i tb]
       build_tb_returns[of ps ds tb]
  show ?thesis by blast
qed


theorem build_degenerate_returns_nothing_witness:
  "length (case points onePointTrack of None \<Rightarrow> [] | Some ps \<Rightarrow> ps) < 2
   \<and> build polylineLib (Some onePointTrack) newSplineTrackBuilder = (Inr None, newSplineTrackBuilder)
   \<and> fst (loadTrack polylineLib (Some onePointTrack) ''track2'' newGame newSplineTrackBuilder)
       = Inl TypeError
   \<and> state (fst (onPlay polylineLib (Some onePointTrack) ''track2'' newGame newSplineTrackBuilder))
       = Playing
   \<and> totalLaps (timer (fst (onPlay polylineLib (Some onePointTrack) ''track2'' newGame
                             newSplineTrackBuilder))) = 3
   \<and> pieceType (bareRamp\<lparr>pieceType := None\<rparr>) = None
   \<and> buildPiece (bareRamp\<lparr>pieceType := None\<rparr>) (vec 0 0 0) 0 0 0 newTrackBuilder
       = ((vec 0 0 0, 0, 0), newTrackBuilder)"
proof -
  have d: "length (case points onePointTrack of None \<Rightarrow> [] | Some ps \<Rightarrow> ps) < 2"
    by (simp add: onePointTrack_def)
  have t: "pieceType (bareRamp\<lparr>pieceType := None\<rparr>) = None" by simp
  have c: "clear newSplineTrackBuilder = newSplineTrackBuilder"
    by (simp add: clear_def clear_collision_def newSplineTrackBuilder_def)
  have l: "laps onePointTrack = Some 3" by (simp add: onePointTrack_def)
  from build_degenerate_returns_nothing[of onePointTrack polylineLib newSplineTrackBuilder
         "''track2''" newGame "bareRamp\<lparr>pieceType := None\<rparr>" "vec 0 0 0" 0 0 0 newTrackBuilder
         "[]" None] d t
  show ?thesis by (simp add: c l)
qed

end
